theory Spec2Isabelle
  imports Main "HOL-Library.AList" "HOL-Library.Char_ord" "HOL-Library.List_Lexorder"
begin

section \<open>Values of the challenge document and of the remote API\<close>

text \<open>
  The challenge document (\<open>challenge.yml\<close>, loaded into the \<open>Challenge\<close> dict) and the
  JSON bodies of the remote API are dynamically typed. A value is null, a boolean, an
  integer, a string, a list or a dict with string keys; a dict keeps its insertion order.
  Floating point numbers are left out. Strings are lists of code points below 256.
\<close>

datatype json =
    JNull
  | JBool bool
  | JInt int
  | JStr string
  | JList "json list"
  | JDict "(string \<times> json) list"

type_synonym pydict = "(string \<times> json) list"

text \<open>Python truthiness (\<open>if x\<close>, \<open>not x\<close>, \<open>x or y\<close>).\<close>

fun truthy :: "json \<Rightarrow> bool" where
  "truthy JNull = False"
| "truthy (JBool b) = b"
| "truthy (JInt i) = (i \<noteq> 0)"
| "truthy (JStr s) = (s \<noteq> [])"
| "truthy (JList xs) = (xs \<noteq> [])"
| "truthy (JDict d) = (d \<noteq> [])"

definition py_or :: "json \<Rightarrow> json \<Rightarrow> json" where
  "py_or a b = (if truthy a then a else b)"

text \<open>
  Python \<open>==\<close>: \<open>True == 1\<close> and \<open>False == 0\<close> hold, lists compare element by element,
  dicts compare as mappings whatever the insertion order (keys are distinct in a dict, so
  equal sizes and inclusion give equality).
\<close>

fun py_eq :: "json \<Rightarrow> json \<Rightarrow> bool"
  and py_eq_list :: "json list \<Rightarrow> json list \<Rightarrow> bool"
  and py_sub_dict :: "(string \<times> json) list \<Rightarrow> (string \<times> json) list \<Rightarrow> bool" where
  "py_eq JNull b = (b = JNull)"
| "py_eq (JBool x) b =
     (case b of JBool y \<Rightarrow> x = y | JInt j \<Rightarrow> (if x then 1 else 0) = j | _ \<Rightarrow> False)"
| "py_eq (JInt i) b =
     (case b of JBool y \<Rightarrow> i = (if y then 1 else 0) | JInt j \<Rightarrow> i = j | _ \<Rightarrow> False)"
| "py_eq (JStr s) b = (b = JStr s)"
| "py_eq (JList xs) b = (case b of JList ys \<Rightarrow> py_eq_list xs ys | _ \<Rightarrow> False)"
| "py_eq (JDict d) b =
     (case b of JDict e \<Rightarrow> length d = length e \<and> py_sub_dict d e | _ \<Rightarrow> False)"
| "py_eq_list [] ys = (ys = [])"
| "py_eq_list (x # xs) ys =
     (case ys of [] \<Rightarrow> False | y # ys' \<Rightarrow> py_eq x y \<and> py_eq_list xs ys')"
| "py_sub_dict [] e = True"
| "py_sub_dict (kv # d) e =
     (case map_of e (fst kv) of None \<Rightarrow> False | Some v \<Rightarrow> py_eq (snd kv) v \<and> py_sub_dict d e)"

text \<open>\<open>type(x) == str\<close>, \<open>type(x) == int\<close> (false of a bool), \<open>type(x) == dict\<close>.\<close>

fun is_str :: "json \<Rightarrow> bool" where
  "is_str (JStr s) = True"
| "is_str _ = False"

fun is_int :: "json \<Rightarrow> bool" where
  "is_int (JInt i) = True"
| "is_int _ = False"

fun is_dict :: "json \<Rightarrow> bool" where
  "is_dict (JDict d) = True"
| "is_dict _ = False"

subsection \<open>Exceptions\<close>

text \<open>
  A message is kept as the pieces of its f-string: literal text and interpolated values.
\<close>

datatype frag = Txt string | Val json

datatype exn =
    RemoteChallengeNotFound "frag list"
  | InvalidChallengeFile "frag list"
  | InvalidChallengeDefinition "frag list"
  | HTTPError
  | KeyError string
  | TypeError
  | AttributeError
  | IndexError
  | ValueError
  | UnboundLocalError string
  | FileNotFoundError string
  | ConnectionError
  | JSONDecodeError

subsection \<open>Dict and list primitives\<close>

text \<open>\<open>d[k] = v\<close> on an insertion-ordered dict, and \<open>{**a, **b}\<close>.\<close>

definition dict_set :: "pydict \<Rightarrow> string \<Rightarrow> json \<Rightarrow> pydict" where
  "dict_set d k v = AList.update k v d"

definition dict_merge :: "pydict \<Rightarrow> pydict \<Rightarrow> pydict" where
  "dict_merge a b = fold (\<lambda>kv d. dict_set d (fst kv) (snd kv)) b a"

text \<open>\<open>d.get(k, dflt)\<close> on a value known to be a dict.\<close>

definition dget :: "pydict \<Rightarrow> string \<Rightarrow> json \<Rightarrow> json" where
  "dget d k dflt = (case map_of d k of None \<Rightarrow> dflt | Some v \<Rightarrow> v)"

text \<open>\<open>k in d\<close> on a dict.\<close>

definition has_key :: "pydict \<Rightarrow> string \<Rightarrow> bool" where
  "has_key d k = (map_of d k \<noteq> None)"

text \<open>
  \<open>x[k]\<close> with a string key on any value: a dict raises KeyError on a missing key; a list
  or a string wants an integer index and the other values are not subscriptable, all
  TypeError.
\<close>

fun getitem :: "json \<Rightarrow> string \<Rightarrow> exn + json" where
  "getitem (JDict d) k = (case map_of d k of None \<Rightarrow> Inl (KeyError k) | Some v \<Rightarrow> Inr v)"
| "getitem _ k = Inl TypeError"

text \<open>\<open>x.get(k, dflt)\<close> on any value: only a dict has the method.\<close>

fun py_get :: "json \<Rightarrow> string \<Rightarrow> json \<Rightarrow> exn + json" where
  "py_get (JDict d) k dflt = Inr (dget d k dflt)"
| "py_get _ k dflt = Inl AttributeError"

text \<open>\<open>for x in v\<close>: a list gives its elements, a dict its keys, a string its characters.\<close>

fun iterate :: "json \<Rightarrow> exn + json list" where
  "iterate (JList xs) = Inr xs"
| "iterate (JDict d) = Inr (map (\<lambda>kv. JStr (fst kv)) d)"
| "iterate (JStr s) = Inr (map (\<lambda>c. JStr [c]) s)"
| "iterate _ = Inl TypeError"

text \<open>\<open>x in xs\<close> on a list, and \<open>xs.remove(x)\<close>: both compare with \<open>==\<close>.\<close>

definition py_in :: "json \<Rightarrow> json list \<Rightarrow> bool" where
  "py_in x xs = list_ex (py_eq x) xs"

fun py_remove :: "json \<Rightarrow> json list \<Rightarrow> exn + json list" where
  "py_remove x [] = Inl ValueError"
| "py_remove x (y # ys) =
     (if py_eq y x then Inr ys
      else case py_remove x ys of Inl e \<Rightarrow> Inl e | Inr zs \<Rightarrow> Inr (y # zs))"

text \<open>\<open>set(xs)\<close> hashes every element: a list or a dict is unhashable.\<close>

fun hashable :: "json \<Rightarrow> bool" where
  "hashable (JList xs) = False"
| "hashable (JDict d) = False"
| "hashable _ = True"

text \<open>
  \<open>list(set(xs))\<close>: one element of each class of \<open>==\<close>, in an order the language leaves
  open; the model keeps the first of each class, in the order of the list.
\<close>

fun py_dedup :: "json list \<Rightarrow> json list" where
  "py_dedup [] = []"
| "py_dedup (x # xs) = x # filter (\<lambda>y. \<not> py_eq y x) (py_dedup xs)"

definition list_of_set :: "json list \<Rightarrow> exn + json list" where
  "list_of_set xs = (if list_all hashable xs then Inr (py_dedup xs) else Inl TypeError)"

text \<open>
  \<open>xs.sort()\<close>: integers (and booleans, as 0 and 1) sort by value, strings by code
  points; the sort is stable. A list of at most one element is never compared. Null and
  dicts cannot be ordered and the two kinds cannot be mixed: TypeError. The callers sort
  challenge ids and challenge names; lists of lists are not ordered by this model.
\<close>

fun int_like :: "json \<Rightarrow> bool" where
  "int_like (JInt i) = True"
| "int_like (JBool b) = True"
| "int_like _ = False"

fun int_key :: "json \<Rightarrow> int" where
  "int_key (JInt i) = i"
| "int_key (JBool b) = (if b then 1 else 0)"
| "int_key _ = 0"

fun str_key :: "json \<Rightarrow> string" where
  "str_key (JStr s) = s"
| "str_key _ = []"

definition py_sort :: "json list \<Rightarrow> exn + json list" where
  "py_sort xs =
     (if length xs \<le> 1 then Inr xs
      else if list_all int_like xs then Inr (sort_key int_key xs)
      else if list_all is_str xs then Inr (sort_key str_key xs)
      else Inl TypeError)"

subsection \<open>String primitives\<close>

text \<open>
  \<open>s.split(sep)[0]\<close>: the text before the first occurrence of a non-empty separator;
  \<open>s.split(c)\<close> for a one-character separator; \<open>s.replace(old, new)\<close>; \<open>s.strip()\<close>,
  which removes the white space of \<open>str.isspace\<close>.
\<close>

fun starts_with :: "string \<Rightarrow> string \<Rightarrow> bool" where
  "starts_with [] s = True"
| "starts_with (p # ps) [] = False"
| "starts_with (p # ps) (c # cs) = (p = c \<and> starts_with ps cs)"

fun before_sep :: "string \<Rightarrow> string \<Rightarrow> string" where
  "before_sep sep [] = []"
| "before_sep sep (c # cs) = (if starts_with sep (c # cs) then [] else c # before_sep sep cs)"

fun split_char :: "char \<Rightarrow> string \<Rightarrow> string list" where
  "split_char sep [] = [[]]"
| "split_char sep (c # cs) =
     (case split_char sep cs of
        [] \<Rightarrow> [[c]]
      | p # ps \<Rightarrow> if c = sep then [] # p # ps else (c # p) # ps)"

function replace_str :: "string \<Rightarrow> string \<Rightarrow> string \<Rightarrow> string" where
  "replace_str old new [] = []"
| "replace_str old new (c # cs) =
     (if old = [] then c # cs
      else if starts_with old (c # cs)
      then new @ replace_str old new (drop (length old - 1) cs)
      else c # replace_str old new cs)"
  by pat_completeness auto
termination
  by (relation "measure (\<lambda>(old, new, s). length s)") auto

definition is_space :: "char \<Rightarrow> bool" where
  "is_space c = (c \<in> set [CHR 0x09, CHR 0x0A, CHR 0x0B, CHR 0x0C, CHR 0x0D, CHR 0x1C,
     CHR 0x1D, CHR 0x1E, CHR 0x1F, CHR 0x20, CHR 0x85, CHR 0xA0])"

definition strip :: "string \<Rightarrow> string" where
  "strip s = rev (dropWhile is_space (rev (dropWhile is_space s)))"

text \<open>The text normalisation of \<open>_normalize_challenge\<close>: strip, then unify line ends.\<close>

definition strip_crlf :: "string \<Rightarrow> string" where
  "strip_crlf s = replace_str [CHR 0x0D, CHR 0x0A] [CHR 0x0A] (strip s)"

text \<open>
  \<open>s.isdigit()\<close> holds of a non-empty string of digits, among them the superscripts
  one, two and three; \<open>int(s)\<close> reads the decimal digits and raises ValueError on the
  superscripts.
\<close>

definition is_ascii_digit :: "char \<Rightarrow> bool" where
  "is_ascii_digit c = (48 \<le> (of_char c :: nat) \<and> (of_char c :: nat) \<le> 57)"

definition isdigit :: "string \<Rightarrow> bool" where
  "isdigit s = (s \<noteq> [] \<and>
     list_all (\<lambda>c. is_ascii_digit c \<or> c \<in> set [CHR 0xB2, CHR 0xB3, CHR 0xB9]) s)"

definition int_of_str :: "string \<Rightarrow> exn + int" where
  "int_of_str s =
     (if list_all is_ascii_digit s
      then Inr (foldl (\<lambda>acc c. 10 * acc + (int (of_char c) - 48)) 0 s)
      else Inl ValueError)"

text \<open>
  \<open>f.split("/")[-1]\<close> (sync) and \<open>Path(f).name\<close> (verify): the last component, where
  \<open>Path\<close> first drops empty and \<open>.\<close> components.
\<close>

definition last_part :: "string \<Rightarrow> string" where
  "last_part f = last (split_char CHR ''/'' f)"

definition path_name :: "string \<Rightarrow> string" where
  "path_name f =
     (case rev (filter (\<lambda>p. p \<noteq> [] \<and> p \<noteq> ''.'') (split_char CHR ''/'' f)) of
        [] \<Rightarrow> []
      | p # ps \<Rightarrow> p)"

section \<open>The remote service, the disk and the state of an operation\<close>

text \<open>
  The authenticated transport (\<open>ctfcli.core.api.API\<close>) is outside the source. A call
  names its method, its endpoint and what it sends; the f-string of a URL is kept as an
  endpoint with the interpolated value. A response is what the core reads of it: the
  \<open>ok\<close> flag, the JSON object of the body and the raw bytes.
\<close>

datatype http_method = GET | POST | PATCH | DELETE

datatype endpoint =
    Challenges_admin
  | Challenge_admin json
  | Challenges
  | Challenge json
  | Challenge_sub json string
  | Collection string
  | Item string json
  | Topic_target json
  | Files_challenge
  | Url string

datatype payload =
    No_payload
  | Json_payload json
  | Multipart "(string \<times> string) list" pydict

datatype call = Call http_method endpoint payload

record response =
  ok :: bool
  json_body :: pydict
  content :: string

text \<open>
  The remote answers a call knowing every call made before it. \<open>hash_file\<close>
  (\<open>ctfcli.utils.hashing\<close>) is outside the source too and is taken as a parameter.
\<close>

record env =
  respond :: "call list \<Rightarrow> call \<Rightarrow> response"
  hash_file :: "string \<Rightarrow> string"

text \<open>
  What an operation can change: the calls sent so far, the in-memory document (\<open>self\<close>),
  \<open>self.challenge_id\<close>, the warnings printed with \<open>click.secho\<close>, and the files under
  the challenge directory (relative path to contents).
\<close>

record world =
  calls :: "call list"
  doc :: pydict
  challenge_id :: json
  warnings :: "frag list list"
  disk :: "(string \<times> string) list"

text \<open>
  An operation runs from a world to a result or an exception, and the world it leaves:
  what was done before a raise stays done.
\<close>

type_synonym 'a prog = "world \<Rightarrow> (exn + 'a) \<times> world"

definition ret :: "'a \<Rightarrow> 'a prog" where
  "ret x = (\<lambda>w. (Inr x, w))"

definition raise :: "exn \<Rightarrow> 'a prog" where
  "raise e = (\<lambda>w. (Inl e, w))"

definition lift :: "exn + 'a \<Rightarrow> 'a prog" where
  "lift r = (\<lambda>w. (r, w))"

definition bnd :: "'a prog \<Rightarrow> ('a \<Rightarrow> 'b prog) \<Rightarrow> 'b prog" where
  "bnd m f = (\<lambda>w. case m w of (Inl e, w') \<Rightarrow> (Inl e, w') | (Inr x, w') \<Rightarrow> f x w')"

definition gets :: "(world \<Rightarrow> 'a) \<Rightarrow> 'a prog" where
  "gets f = (\<lambda>w. (Inr (f w), w))"

definition set_doc :: "pydict \<Rightarrow> unit prog" where
  "set_doc d = (\<lambda>w. (Inr (), w\<lparr>doc := d\<rparr>))"

definition set_challenge_id :: "json \<Rightarrow> unit prog" where
  "set_challenge_id i = (\<lambda>w. (Inr (), w\<lparr>challenge_id := i\<rparr>))"

definition secho :: "frag list \<Rightarrow> unit prog" where
  "secho msg = (\<lambda>w. (Inr (), w\<lparr>warnings := warnings w @ [msg]\<rparr>))"

definition request :: "env \<Rightarrow> call \<Rightarrow> response prog" where
  "request e c = (\<lambda>w. (Inr (respond e (calls w) c), w\<lparr>calls := calls w @ [c]\<rparr>))"

definition raise_for_status :: "response \<Rightarrow> unit prog" where
  "raise_for_status r = (if ok r then ret () else raise HTTPError)"

text \<open>\<open>r.json()["data"]\<close> and \<open>r.json().get("data", None)\<close>.\<close>

definition json_data :: "response \<Rightarrow> exn + json" where
  "json_data r = getitem (JDict (json_body r)) ''data''"

definition json_get_data :: "response \<Rightarrow> json" where
  "json_get_data r = dget (json_body r) ''data'' JNull"

text \<open>
  \<open>open(challenge_directory / f, "rb")\<close> and \<open>(challenge_directory / f).exists()\<close>:
  joining a path with anything but a string is a TypeError.
\<close>

definition path_exists :: "(string \<times> string) list \<Rightarrow> string \<Rightarrow> bool" where
  "path_exists dk p = (map_of dk p \<noteq> None)"

definition read_file :: "string \<Rightarrow> string prog" where
  "read_file p = (\<lambda>w. (case map_of (disk w) p of
                          None \<Rightarrow> Inl (FileNotFoundError p)
                        | Some bytes \<Rightarrow> Inr bytes, w))"

fun path_of :: "json \<Rightarrow> exn + string" where
  "path_of (JStr p) = Inr p"
| "path_of _ = Inl TypeError"

section \<open>Loading the remote challenges\<close>

definition load_installed_challenge :: "env \<Rightarrow> json \<Rightarrow> json prog" where
  "load_installed_challenge e cid =
     bnd (request e (Call GET (Challenge_admin cid) No_payload)) (\<lambda>r.
       if \<not> ok r
       then raise (RemoteChallengeNotFound [Txt ''Could not load challenge with id='', Val cid])
       else if \<not> truthy (json_get_data r)
       then raise (RemoteChallengeNotFound [Txt ''Could not load challenge with id='', Val cid])
       else ret (json_get_data r))"

definition load_installed_challenges :: "env \<Rightarrow> json prog" where
  "load_installed_challenges e =
     bnd (request e (Call GET Challenges_admin No_payload)) (\<lambda>r.
       if \<not> ok r then ret (JList [])
       else if \<not> truthy (json_get_data r) then ret (JList [])
       else ret (json_get_data r))"

text \<open>
  The loop of \<open>_load_challenge_id\<close>: the id of the first listed challenge whose name
  equals the document's, if any.
\<close>

fun find_own_id :: "pydict \<Rightarrow> json list \<Rightarrow> exn + json option" where
  "find_own_id d [] = Inr None"
| "find_own_id d (c # cs) =
     (case getitem c ''name'' of
        Inl x \<Rightarrow> Inl x
      | Inr n \<Rightarrow>
          (case getitem (JDict d) ''name'' of
             Inl x \<Rightarrow> Inl x
           | Inr m \<Rightarrow>
               if py_eq n m
               then (case getitem c ''id'' of Inl x \<Rightarrow> Inl x | Inr i \<Rightarrow> Inr (Some i))
               else find_own_id d cs))"

definition load_challenge_id :: "env \<Rightarrow> unit prog" where
  "load_challenge_id e =
     bnd (load_installed_challenges e) (\<lambda>remote_challenges.
       if \<not> truthy remote_challenges
       then raise (RemoteChallengeNotFound [Txt ''Could not load any remote challenges''])
       else
         bnd (lift (iterate remote_challenges)) (\<lambda>cs.
         bnd (gets doc) (\<lambda>d.
         bnd (lift (find_own_id d cs)) (\<lambda>found.
         bnd (case found of None \<Rightarrow> ret () | Some i \<Rightarrow> set_challenge_id i) (\<lambda>_.
         bnd (gets challenge_id) (\<lambda>cid.
           if cid = JNull
           then bnd (lift (getitem (JDict d) ''name'')) (\<lambda>n.
                  raise (RemoteChallengeNotFound
                    [Txt (''Could not load remote challenge with name '' @ [CHR 0x27]), Val n,
                     Txt [CHR 0x27]]))
           else ret ()))))))"

section \<open>The listing on the wire\<close>

text \<open>
  The operations are written against a remote that answers every call with a status and
  a JSON object. Underneath, \<open>api.get\<close> can fail to bring a response back at all, and
  \<open>r.json()\<close> can fail to decode the body or give a value that is no object. This section
  writes \<open>load_installed_challenges\<close> and \<open>_load_challenge_id\<close> once more at that level:
  the transport gives a response or raises, and a response carries \<open>r.ok\<close> and what
  \<open>r.json()\<close> gives or raises. \<open>reliable\<close> is the transport of a remote as above.
\<close>

record raw_response =
  raw_ok :: bool
  raw_json :: "exn + json"

type_synonym wire = "call list \<Rightarrow> call \<Rightarrow> exn + raw_response"

definition wire_request :: "wire \<Rightarrow> call \<Rightarrow> raw_response prog" where
  "wire_request t c = (\<lambda>w. (t (calls w) c, w\<lparr>calls := calls w @ [c]\<rparr>))"

definition listing_call :: call where
  "listing_call = Call GET Challenges_admin No_payload"

definition load_installed_challenges_wire :: "wire \<Rightarrow> json prog" where
  "load_installed_challenges_wire t =
     bnd (wire_request t listing_call) (\<lambda>r.
       if \<not> raw_ok r then ret (JList [])
       else
         bnd (lift (raw_json r)) (\<lambda>body.
         bnd (lift (py_get body ''data'' JNull)) (\<lambda>installed_challenges.
           if \<not> truthy installed_challenges then ret (JList [])
           else ret installed_challenges)))"

definition load_challenge_id_wire :: "wire \<Rightarrow> unit prog" where
  "load_challenge_id_wire t =
     bnd (load_installed_challenges_wire t) (\<lambda>remote_challenges.
       if \<not> truthy remote_challenges
       then raise (RemoteChallengeNotFound [Txt ''Could not load any remote challenges''])
       else
         bnd (lift (iterate remote_challenges)) (\<lambda>cs.
         bnd (gets doc) (\<lambda>d.
         bnd (lift (find_own_id d cs)) (\<lambda>found.
         bnd (case found of None \<Rightarrow> ret () | Some i \<Rightarrow> set_challenge_id i) (\<lambda>_.
         bnd (gets challenge_id) (\<lambda>cid.
           if cid = JNull
           then bnd (lift (getitem (JDict d) ''name'')) (\<lambda>n.
                  raise (RemoteChallengeNotFound
                    [Txt (''Could not load remote challenge with name '' @ [CHR 0x27]), Val n,
                     Txt [CHR 0x27]]))
           else ret ()))))))"

definition reliable :: "env \<Rightarrow> wire" where
  "reliable e =
     (\<lambda>h c. Inr \<lparr>raw_ok = ok (respond e h c),
                  raw_json = Inr (JDict (json_body (respond e h c)))\<rparr>)"

section \<open>Validation and the initial payload\<close>

fun validate_each :: "(string \<times> string) list \<Rightarrow> json list \<Rightarrow> exn + unit" where
  "validate_each dk [] = Inr ()"
| "validate_each dk (f # fs) =
     (case path_of f of
        Inl x \<Rightarrow> Inl x
      | Inr p \<Rightarrow>
          if \<not> path_exists dk p
          then Inl (InvalidChallengeFile [Txt ''File '', Val f, Txt '' could not be loaded''])
          else validate_each dk fs)"

definition validate_files :: "unit prog" where
  "validate_files =
     bnd (gets doc) (\<lambda>d.
     bnd (lift (iterate (py_or (dget d ''files'' JNull) (JList [])))) (\<lambda>files.
     bnd (gets disk) (\<lambda>dk. lift (validate_each dk files))))"

text \<open>
  \<open>_get_initial_challenge_payload\<close>, in the order of the source: the base payload with
  the state \<open>hidden\<close>, the value, the attempts and the connection info, then the \<open>extra\<close>
  and the \<open>geo_flags\<close> maps merged over it.

  The value: the second test, \<open>if type(challenge["value"] == int)\<close>, asks for the type of
  a boolean, which is always true, so the value is stored as it is, after the cast of a
  digit string.
\<close>

definition with_value :: "pydict \<Rightarrow> pydict \<Rightarrow> exn + pydict" where
  "with_value d payload =
     (let v = dget d ''value'' JNull in
      if v = JNull then Inr payload
      else case (case v of
                   JStr s \<Rightarrow> if isdigit s
                             then (case int_of_str s of
                                     Inl x \<Rightarrow> Inl x
                                   | Inr n \<Rightarrow> Inr (dict_set payload ''value'' (JInt n)))
                             else Inr payload
                 | _ \<Rightarrow> Inr payload) of
             Inl x \<Rightarrow> Inl x
           | Inr p \<Rightarrow> Inr (dict_set p ''value'' v))"

text \<open>\<open>{**challenge_payload, **challenge.get(key, {})}\<close>, unless the key is ignored.\<close>

definition merged :: "string list \<Rightarrow> pydict \<Rightarrow> string \<Rightarrow> pydict \<Rightarrow> exn + pydict" where
  "merged ignore d key payload =
     (if key \<notin> set ignore
      then (case dget d key (JDict []) of
              JDict x \<Rightarrow> Inr (dict_merge payload x)
            | _ \<Rightarrow> Inl TypeError)
      else Inr payload)"

definition get_initial_challenge_payload :: "string list \<Rightarrow> pydict \<Rightarrow> exn + pydict" where
  "get_initial_challenge_payload ignore d =
     (case getitem (JDict d) ''name'' of
        Inl x \<Rightarrow> Inl x
      | Inr name \<Rightarrow>
          (case with_value d
                  [(''name'', name),
                   (''category'', dget d ''category'' (JStr [])),
                   (''description'', dget d ''description'' (JStr [])),
                   (''attribution'', dget d ''attribution'' (JStr [])),
                   (''type'', dget d ''type'' (JStr ''standard'')),
                   (''state'', JStr ''hidden'')] of
             Inl x \<Rightarrow> Inl x
           | Inr p1 \<Rightarrow>
               (case merged ignore d ''extra''
                       (let p2 = (if ''attempts'' \<notin> set ignore
                                  then dict_set p1 ''max_attempts'' (dget d ''attempts'' (JInt 0))
                                  else p1)
                        in if ''connection_info'' \<notin> set ignore
                           then dict_set p2 ''connection_info'' (dget d ''connection_info'' JNull)
                           else p2) of
                  Inl x \<Rightarrow> Inl x
                | Inr p4 \<Rightarrow> merged ignore d ''geo_flags'' p4)))"

section \<open>Sub-resources: flags, topics, tags, files, hints\<close>

text \<open>
  The loop shared by \<open>_delete_existing_flags\<close>, \<open>_delete_existing_tags\<close>,
  \<open>_delete_existing_hints\<close> and \<open>_delete_file\<close>: every listed entry whose field \<open>key\<close>
  equals \<open>v\<close> is deleted by its id, and a refused deletion raises.
\<close>

fun delete_where :: "env \<Rightarrow> string \<Rightarrow> string \<Rightarrow> json \<Rightarrow> json list \<Rightarrow> unit prog" where
  "delete_where e kind key v [] = ret ()"
| "delete_where e kind key v (x # xs) =
     bnd (lift (getitem x key)) (\<lambda>f.
       if py_eq f v
       then bnd (lift (getitem x ''id'')) (\<lambda>i.
            bnd (request e (Call DELETE (Item kind i) No_payload)) (\<lambda>r.
            bnd (raise_for_status r) (\<lambda>_. delete_where e kind key v xs)))
       else delete_where e kind key v xs)"

definition delete_existing :: "env \<Rightarrow> string \<Rightarrow> unit prog" where
  "delete_existing e kind =
     bnd (request e (Call GET (Collection kind) No_payload)) (\<lambda>r.
     bnd (lift (json_data r)) (\<lambda>data.
     bnd (lift (iterate data)) (\<lambda>xs.
     bnd (gets challenge_id) (\<lambda>cid. delete_where e kind ''challenge_id'' cid xs))))"

definition delete_existing_flags :: "env \<Rightarrow> unit prog" where
  "delete_existing_flags e = delete_existing e ''flags''"

definition delete_existing_tags :: "env \<Rightarrow> unit prog" where
  "delete_existing_tags e = delete_existing e ''tags''"

definition delete_existing_hints :: "env \<Rightarrow> unit prog" where
  "delete_existing_hints e = delete_existing e ''hints''"

definition delete_file :: "env \<Rightarrow> string \<Rightarrow> unit prog" where
  "delete_file e remote_location =
     bnd (request e (Call GET Files_challenge No_payload)) (\<lambda>r.
     bnd (lift (json_data r)) (\<lambda>data.
     bnd (lift (iterate data)) (\<lambda>xs.
       delete_where e ''files'' ''location'' (JStr remote_location) xs)))"

fun delete_topics :: "env \<Rightarrow> json list \<Rightarrow> unit prog" where
  "delete_topics e [] = ret ()"
| "delete_topics e (t # ts) =
     bnd (lift (getitem t ''id'')) (\<lambda>i.
     bnd (request e (Call DELETE (Topic_target i) No_payload)) (\<lambda>r.
     bnd (raise_for_status r) (\<lambda>_. delete_topics e ts)))"

definition delete_existing_topics :: "env \<Rightarrow> unit prog" where
  "delete_existing_topics e =
     bnd (gets challenge_id) (\<lambda>cid.
     bnd (request e (Call GET (Challenge_sub cid ''topics'') No_payload)) (\<lambda>r.
     bnd (lift (json_data r)) (\<lambda>data.
     bnd (lift (iterate data)) (\<lambda>ts. delete_topics e ts))))"

text \<open>
  The creation loops post one payload per entry. \<open>post_each\<close> is their common shape: the
  payload of an entry may itself fail (a flag that is no mapping, a hint without content).
\<close>

fun post_each :: "env \<Rightarrow> string \<Rightarrow> (json \<Rightarrow> exn + json) \<Rightarrow> json list \<Rightarrow> unit prog" where
  "post_each e kind mk [] = ret ()"
| "post_each e kind mk (x # xs) =
     bnd (lift (mk x)) (\<lambda>p.
     bnd (request e (Call POST (Collection kind) (Json_payload p))) (\<lambda>r.
     bnd (raise_for_status r) (\<lambda>_. post_each e kind mk xs)))"

fun flag_payload :: "json \<Rightarrow> json \<Rightarrow> exn + json" where
  "flag_payload cid (JStr s) =
     Inr (JDict [(''content'', JStr s), (''type'', JStr ''static''), (''challenge_id'', cid)])"
| "flag_payload cid (JDict f) = Inr (JDict (dict_set f ''challenge_id'' cid))"
| "flag_payload cid _ = Inl TypeError"

definition topic_payload :: "json \<Rightarrow> json \<Rightarrow> exn + json" where
  "topic_payload cid t =
     Inr (JDict [(''value'', t), (''type'', JStr ''challenge''), (''challenge_id'', cid)])"

definition tag_payload :: "json \<Rightarrow> json \<Rightarrow> exn + json" where
  "tag_payload cid t = Inr (JDict [(''challenge_id'', cid), (''value'', t)])"

fun hint_payload :: "json \<Rightarrow> json \<Rightarrow> exn + json" where
  "hint_payload cid (JStr s) =
     Inr (JDict [(''content'', JStr s), (''title'', JStr []), (''cost'', JInt 0),
                 (''challenge_id'', cid)])"
| "hint_payload cid h =
     (case getitem h ''content'' of
        Inl x \<Rightarrow> Inl x
      | Inr c \<Rightarrow>
          (case py_get h ''title'' (JStr []) of
             Inl x \<Rightarrow> Inl x
           | Inr t \<Rightarrow>
               (case py_get h ''cost'' (JInt 0) of
                  Inl x \<Rightarrow> Inl x
                | Inr k \<Rightarrow>
                    Inr (JDict [(''content'', c), (''title'', t), (''cost'', k),
                                (''challenge_id'', cid)]))))"

definition create_entries ::
  "env \<Rightarrow> string \<Rightarrow> (json \<Rightarrow> json \<Rightarrow> exn + json) \<Rightarrow> unit prog" where
  "create_entries e kind mk =
     bnd (gets doc) (\<lambda>d.
     bnd (lift (getitem (JDict d) kind)) (\<lambda>v.
     bnd (lift (iterate v)) (\<lambda>xs.
     bnd (gets challenge_id) (\<lambda>cid. post_each e kind (mk cid) xs))))"

definition create_flags :: "env \<Rightarrow> unit prog" where
  "create_flags e = create_entries e ''flags'' flag_payload"

definition create_topics :: "env \<Rightarrow> unit prog" where
  "create_topics e = create_entries e ''topics'' topic_payload"

definition create_tags :: "env \<Rightarrow> unit prog" where
  "create_tags e = create_entries e ''tags'' tag_payload"

definition create_hints :: "env \<Rightarrow> unit prog" where
  "create_hints e = create_entries e ''hints'' hint_payload"

text \<open>\<open>_create_file\<close> sends one file, \<open>_create_all_files\<close> all of them in one request.\<close>

definition files_payload :: "json \<Rightarrow> pydict" where
  "files_payload cid = [(''challenge_id'', cid), (''type'', JStr ''challenge'')]"

definition create_file :: "env \<Rightarrow> string \<Rightarrow> unit prog" where
  "create_file e local_path =
     bnd (read_file local_path) (\<lambda>bytes.
     bnd (gets challenge_id) (\<lambda>cid.
     bnd (request e (Call POST (Collection ''files'')
            (Multipart [(local_path, bytes)] (files_payload cid)))) (\<lambda>r.
       raise_for_status r)))"

fun open_all :: "json list \<Rightarrow> (string \<times> string) list prog" where
  "open_all [] = ret []"
| "open_all (f # fs) =
     bnd (lift (path_of f)) (\<lambda>p.
     bnd (read_file p) (\<lambda>bytes.
     bnd (open_all fs) (\<lambda>rest. ret ((p, bytes) # rest))))"

definition create_all_files :: "env \<Rightarrow> unit prog" where
  "create_all_files e =
     bnd (gets doc) (\<lambda>d.
     bnd (lift (iterate (py_or (dget d ''files'' JNull) (JList [])))) (\<lambda>files.
     bnd (open_all files) (\<lambda>new_files.
     bnd (gets challenge_id) (\<lambda>cid.
     bnd (request e (Call POST (Collection ''files'')
            (Multipart new_files (files_payload cid)))) (\<lambda>r.
       raise_for_status r)))))"

section \<open>Requirements and the next link\<close>

text \<open>The first listed challenge of a given name, if any: its id.\<close>

fun find_by_name :: "json \<Rightarrow> json list \<Rightarrow> exn + json option" where
  "find_by_name n [] = Inr None"
| "find_by_name n (c # cs) =
     (case getitem c ''name'' of
        Inl x \<Rightarrow> Inl x
      | Inr m \<Rightarrow>
          if py_eq m n
          then (case getitem c ''id'' of Inl x \<Rightarrow> Inl x | Inr i \<Rightarrow> Inr (Some i))
          else find_by_name n cs)"

text \<open>
  The loop of \<open>_set_required_challenges\<close> over the references: a string is looked up by
  name (and skipped with a warning when no challenge has it), an integer is appended as
  it is, anything else is passed over.
\<close>

fun resolve_required :: "json \<Rightarrow> json list \<Rightarrow> json list \<Rightarrow> json list prog" where
  "resolve_required remote_challenges [] acc = ret acc"
| "resolve_required remote_challenges (x # xs) acc =
     (if is_str x
      then bnd (lift (iterate remote_challenges)) (\<lambda>cs.
           bnd (lift (find_by_name x cs)) (\<lambda>found.
             case found of
               Some i \<Rightarrow> resolve_required remote_challenges xs (acc @ [i])
             | None \<Rightarrow>
                 bnd (secho [Txt ''Challenge id cannot be found. Skipping invalid requirement name '',
                             Val x, Txt ''.'']) (\<lambda>_.
                   resolve_required remote_challenges xs acc)))
      else if is_int x then resolve_required remote_challenges xs (acc @ [x])
      else resolve_required remote_challenges xs acc)"

text \<open>
  \<open>_set_required_challenges\<close>. The deduplicated list \<open>required_challenge_ids\<close> is only
  consulted for the self-reference test; \<open>remove\<close> and \<open>sort\<close> work on
  \<open>required_challenges\<close>, and that list is what the payload carries.
\<close>

definition requirements_payload :: "json list \<Rightarrow> json \<Rightarrow> json" where
  "requirements_payload prerequisites anonymize =
     JDict [(''requirements'',
             JDict [(''prerequisites'', JList prerequisites), (''anonymize'', anonymize)])]"

definition set_required_challenges :: "env \<Rightarrow> unit prog" where
  "set_required_challenges e =
     bnd (load_installed_challenges e) (\<lambda>remote_challenges.
     bnd (gets doc) (\<lambda>d.
     bnd (lift (getitem (JDict d) ''requirements'')) (\<lambda>req.
     bnd (ret (case req of
                 JDict r \<Rightarrow> (dget r ''prerequisites'' (JList []), dget r ''anonymize'' (JBool False))
               | _ \<Rightarrow> (req, JBool False))) (\<lambda>rc_anonymize.
     bnd (lift (iterate (fst rc_anonymize))) (\<lambda>rc.
     bnd (resolve_required remote_challenges rc []) (\<lambda>required_challenges.
     bnd (lift (list_of_set required_challenges)) (\<lambda>required_challenge_ids.
     bnd (gets challenge_id) (\<lambda>cid.
     bnd (if py_in cid required_challenge_ids
          then bnd (secho [Txt ''Challenge cannot require itself. Skipping invalid requirement.''])
                 (\<lambda>_. lift (py_remove cid required_challenges))
          else ret required_challenges) (\<lambda>required_challenges.
     bnd (lift (py_sort required_challenges)) (\<lambda>required_challenges.
     bnd (request e (Call PATCH (Challenge cid)
            (Json_payload (requirements_payload required_challenges (snd rc_anonymize))))) (\<lambda>r.
       raise_for_status r)))))))))))"

text \<open>
  \<open>_set_next\<close>. In the integer branch the source reads \<open>remote_challenge["id"]\<close>, a local
  variable that only the loop of the string branch assigns: on this path it has no
  value, and reading it raises UnboundLocalError.
\<close>

definition read_local :: "string \<Rightarrow> 'a option \<Rightarrow> exn + 'a" where
  "read_local name v = (case v of None \<Rightarrow> Inl (UnboundLocalError name) | Some x \<Rightarrow> Inr x)"

fun positive_int :: "json \<Rightarrow> bool" where
  "positive_int (JInt i) = (i > 0)"
| "positive_int _ = False"

definition next_payload :: "json \<Rightarrow> json" where
  "next_payload n = JDict [(''next_id'', n)]"

definition set_next :: "env \<Rightarrow> json \<Rightarrow> unit prog" where
  "set_next e nxt =
     bnd (if is_str nxt
          then bnd (load_installed_challenges e) (\<lambda>remote_challenges.
               bnd (lift (iterate remote_challenges)) (\<lambda>cs.
               bnd (lift (find_by_name nxt cs)) (\<lambda>found.
               bnd (ret (case found of Some i \<Rightarrow> i | None \<Rightarrow> nxt)) (\<lambda>n.
                 if is_str n
                 then bnd (secho [Txt (''Challenge cannot find next challenge. Maybe it is '' @
                                       ''invalid name or id. It will be cleared.'')])
                        (\<lambda>_. ret JNull)
                 else ret n))))
          else if positive_int nxt
          then bnd (lift (read_local ''remote_challenge'' None)) (\<lambda>remote_challenge.
                 lift (getitem remote_challenge ''id''))
          else ret JNull) (\<lambda>n.
     bnd (gets challenge_id) (\<lambda>cid.
     bnd (if py_eq cid n
          then bnd (secho [Txt (''Challenge cannot set next challenge itself. '' @
                                ''Skipping invalid next challenge.'')])
                 (\<lambda>_. ret JNull)
          else ret n) (\<lambda>n.
     bnd (request e (Call PATCH (Challenge cid) (Json_payload (next_payload n)))) (\<lambda>r.
       raise_for_status r))))"

section \<open>Remote files and their checksums\<close>

text \<open>
  \<open>_normalize_remote_files\<close>: from each remote file URL, the basename and the storage
  location (the last two components of the part before \<open>?token=\<close>). A URL that is no
  string has no \<open>split\<close>; one without a slash has no component before the last.
\<close>

record remote_file =
  url :: string
  location :: string

fun remote_files_into ::
  "(string \<times> remote_file) list \<Rightarrow> json list \<Rightarrow> exn + (string \<times> remote_file) list" where
  "remote_files_into normalized [] = Inr normalized"
| "remote_files_into normalized (f # fs) =
     (case f of
        JStr u \<Rightarrow>
          (case rev (split_char CHR ''/'' (before_sep ''?token='' u)) of
             nm # dir # _ \<Rightarrow>
               remote_files_into
                 (AList.update nm \<lparr>url = u, location = dir @ ''/'' @ nm\<rparr> normalized) fs
           | _ \<Rightarrow> Inl IndexError)
      | _ \<Rightarrow> Inl AttributeError)"

definition normalize_remote_files :: "json \<Rightarrow> exn + (string \<times> remote_file) list" where
  "normalize_remote_files remote_files =
     (case iterate remote_files of Inl x \<Rightarrow> Inl x | Inr fs \<Rightarrow> remote_files_into [] fs)"

text \<open>
  \<open>_get_files_sha1sums\<close>: the dict from each listed file's location to its \<open>sha1sum\<close>
  (null when the remote gives none). A later entry of the same location replaces an
  earlier one, so a lookup reads the last.
\<close>

fun sha1sum_entries :: "json list \<Rightarrow> exn + (json \<times> json) list" where
  "sha1sum_entries [] = Inr []"
| "sha1sum_entries (f # fs) =
     (case getitem f ''location'' of
        Inl x \<Rightarrow> Inl x
      | Inr loc \<Rightarrow>
          (case py_get f ''sha1sum'' JNull of
             Inl x \<Rightarrow> Inl x
           | Inr sha \<Rightarrow>
               if \<not> hashable loc then Inl TypeError
               else (case sha1sum_entries fs of
                       Inl x \<Rightarrow> Inl x
                     | Inr rest \<Rightarrow> Inr ((loc, sha) # rest))))"

definition get_files_sha1sums :: "env \<Rightarrow> (json \<times> json) list prog" where
  "get_files_sha1sums e =
     bnd (request e (Call GET Files_challenge No_payload)) (\<lambda>r.
     bnd (raise_for_status r) (\<lambda>_.
     bnd (lift (json_data r)) (\<lambda>data.
     bnd (lift (iterate data)) (\<lambda>fs. lift (sha1sum_entries fs)))))"

definition sha1sum_at :: "(json \<times> json) list \<Rightarrow> string \<Rightarrow> exn + json" where
  "sha1sum_at sha1sums loc =
     (case rev (filter (\<lambda>kv. py_eq (fst kv) (JStr loc)) sha1sums) of
        [] \<Rightarrow> Inl (KeyError loc)
      | kv # _ \<Rightarrow> Inr (snd kv))"

text \<open>
  The dict of local files, \<open>{basename: path}\<close>. \<open>sync\<close> takes the basename with
  \<open>f.split("/")[-1]\<close>, \<open>verify\<close> with \<open>Path(f).name\<close>.
\<close>

fun local_files_into ::
  "(string \<Rightarrow> string) \<Rightarrow> (string \<times> string) list \<Rightarrow> json list \<Rightarrow> exn + (string \<times> string) list"
  where
  "local_files_into base acc [] = Inr acc"
| "local_files_into base acc (f # fs) =
     (case f of
        JStr p \<Rightarrow> local_files_into base (AList.update (base p) p acc) fs
      | _ \<Rightarrow> Inl AttributeError)"

section \<open>sync\<close>

text \<open>
  The file pass of \<open>sync\<close>. First the remote files no local file names are deleted.
\<close>

fun delete_unreferenced ::
  "env \<Rightarrow> (string \<times> string) list \<Rightarrow> (string \<times> remote_file) list \<Rightarrow> unit prog" where
  "delete_unreferenced e local_files [] = ret ()"
| "delete_unreferenced e local_files (rf # rfs) =
     (if map_of local_files (fst rf) = None
      then bnd (delete_file e (location (snd rf))) (\<lambda>_. delete_unreferenced e local_files rfs)
      else delete_unreferenced e local_files rfs)"

text \<open>
  One round of the loop over the local files: a file the remote does not have is
  created; a file whose remote checksum is known and equals the local one is left alone;
  any other file is deleted remotely and created again.
\<close>

definition sync_local_file ::
  "env \<Rightarrow> (string \<times> remote_file) list \<Rightarrow> (json \<times> json) list \<Rightarrow> string \<times> string \<Rightarrow> unit prog"
  where
  "sync_local_file e remote_files sha1sums lf =
     (case map_of remote_files (fst lf) of
        None \<Rightarrow> create_file e (snd lf)
      | Some rf \<Rightarrow>
          bnd (lift (sha1sum_at sha1sums (location rf))) (\<lambda>remote_file_sha1sum.
          bnd (if remote_file_sha1sum \<noteq> JNull
               then bnd (read_file (snd lf)) (\<lambda>bytes.
                      ret (py_eq (JStr (hash_file e bytes)) remote_file_sha1sum))
               else ret False) (\<lambda>unchanged.
            if unchanged then ret ()
            else bnd (delete_file e (location rf)) (\<lambda>_. create_file e (snd lf)))))"

fun sync_local_files ::
  "env \<Rightarrow> (string \<times> remote_file) list \<Rightarrow> (json \<times> json) list \<Rightarrow> (string \<times> string) list
     \<Rightarrow> unit prog" where
  "sync_local_files e remote_files sha1sums [] = ret ()"
| "sync_local_files e remote_files sha1sums (lf # lfs) =
     bnd (sync_local_file e remote_files sha1sums lf) (\<lambda>_.
       sync_local_files e remote_files sha1sums lfs)"

definition sync_files :: "env \<Rightarrow> json \<Rightarrow> unit prog" where
  "sync_files e remote_challenge =
     bnd (gets doc) (\<lambda>d.
     bnd (set_doc (dict_set d ''files'' (py_or (dget d ''files'' JNull) (JList [])))) (\<lambda>_.
     bnd (lift (py_get remote_challenge ''files'' JNull)) (\<lambda>rf.
     bnd (lift (iterate (py_or (dget d ''files'' JNull) (JList [])))) (\<lambda>fs.
     bnd (lift (local_files_into last_part [] fs)) (\<lambda>local_files.
     bnd (lift (normalize_remote_files (py_or rf (JList [])))) (\<lambda>remote_files.
     bnd (delete_unreferenced e local_files remote_files) (\<lambda>_.
       if local_files \<noteq> []
       then bnd (get_files_sha1sums e) (\<lambda>sha1sums.
              sync_local_files e remote_files sha1sums local_files)
       else ret ())))))))"

text \<open>
  The scalar properties an ignore-set reverts to the remote's values, then \<open>sync\<close> itself.
\<close>

fun reset_to_remote ::
  "string list \<Rightarrow> json \<Rightarrow> string list \<Rightarrow> pydict \<Rightarrow> exn + pydict" where
  "reset_to_remote ignore remote_challenge [] payload = Inr payload"
| "reset_to_remote ignore remote_challenge (p # ps) payload =
     (if p \<in> set ignore
      then (case getitem remote_challenge p of
              Inl x \<Rightarrow> Inl x
            | Inr v \<Rightarrow> reset_to_remote ignore remote_challenge ps (dict_set payload p v))
      else reset_to_remote ignore remote_challenge ps payload)"

definition only_if :: "bool \<Rightarrow> unit prog \<Rightarrow> unit prog" where
  "only_if b m = (if b then m else ret ())"

definition visible_payload :: json where
  "visible_payload = JDict [(''state'', JStr ''visible'')]"

definition make_visible :: "env \<Rightarrow> unit prog" where
  "make_visible e =
     bnd (gets challenge_id) (\<lambda>cid.
     bnd (request e (Call PATCH (Challenge cid) (Json_payload visible_payload))) (\<lambda>r.
       raise_for_status r))"

text \<open>The decision \<open>make_challenge_visible\<close> at the end of \<open>sync\<close>.\<close>

definition sync_make_visible :: "string list \<Rightarrow> pydict \<Rightarrow> json \<Rightarrow> exn + bool" where
  "sync_make_visible ignore d remote_challenge =
     (if ''state'' \<notin> set ignore
      then Inr (py_eq (dget d ''state'' (JStr ''visible'')) (JStr ''visible''))
      else (case py_get remote_challenge ''state'' JNull of
              Inl x \<Rightarrow> Inl x
            | Inr s \<Rightarrow> Inr (py_eq s (JStr ''visible''))))"

definition sync_update :: "env \<Rightarrow> string list \<Rightarrow> json \<Rightarrow> unit prog" where
  "sync_update e ignore remote_challenge =
     bnd (only_if (''flags'' \<notin> set ignore)
            (bnd (delete_existing_flags e) (\<lambda>_.
             bnd (gets doc) (\<lambda>d.
               only_if (truthy (dget d ''flags'' JNull)) (create_flags e))))) (\<lambda>_.
     bnd (only_if (''topics'' \<notin> set ignore)
            (bnd (delete_existing_topics e) (\<lambda>_.
             bnd (gets doc) (\<lambda>d.
               only_if (truthy (dget d ''topics'' JNull)) (create_topics e))))) (\<lambda>_.
     bnd (only_if (''tags'' \<notin> set ignore)
            (bnd (delete_existing_tags e) (\<lambda>_.
             bnd (gets doc) (\<lambda>d.
               only_if (truthy (dget d ''tags'' JNull)) (create_tags e))))) (\<lambda>_.
     bnd (only_if (''files'' \<notin> set ignore) (sync_files e remote_challenge)) (\<lambda>_.
     bnd (only_if (''hints'' \<notin> set ignore)
            (bnd (delete_existing_hints e) (\<lambda>_.
             bnd (gets doc) (\<lambda>d.
               only_if (truthy (dget d ''hints'' JNull)) (create_hints e))))) (\<lambda>_.
     bnd (gets doc) (\<lambda>d.
     bnd (only_if (truthy (dget d ''requirements'' JNull) \<and> ''requirements'' \<notin> set ignore)
            (set_required_challenges e)) (\<lambda>_.
       only_if (''next'' \<notin> set ignore) (set_next e (dget d ''next'' JNull)))))))))"

text \<open>
  \<open>sync\<close> is written in two parts. \<open>sync_begin\<close> runs up to the assembly of the payload:
  the name check, the validation of the files, the initial payload, the lookup of the
  remote challenge and the properties reverted to the remote's. It gives the challenge id,
  the remote challenge and the payload. \<open>sync\<close> then sends the payload, converges the
  sub-resources and restores the visibility.
\<close>

definition sync_begin :: "env \<Rightarrow> string list \<Rightarrow> (json \<times> json \<times> pydict) prog" where
  "sync_begin e ignore =
     bnd (only_if (''name'' \<in> set ignore)
            (secho [Txt (''Attribute '' @ [CHR 0x27] @ ''name'' @ [CHR 0x27] @
                         '' cannot be ignored when syncing a challenge'')])) (\<lambda>_.
     bnd (gets doc) (\<lambda>d.
       if \<not> truthy (dget d ''name'' JNull)
       then raise (InvalidChallengeFile [Txt ''Challenge does not provide a name''])
       else
         bnd (only_if (truthy (dget d ''files'' (JBool False)) \<and> ''files'' \<notin> set ignore)
                validate_files) (\<lambda>_.
         bnd (lift (get_initial_challenge_payload ignore d)) (\<lambda>challenge_payload.
         bnd (load_challenge_id e) (\<lambda>_.
         bnd (gets challenge_id) (\<lambda>cid.
         bnd (load_installed_challenge e cid) (\<lambda>remote_challenge.
         bnd (lift (reset_to_remote ignore remote_challenge
                [''value'', ''category'', ''type'', ''description'', ''attribution'']
                challenge_payload)) (\<lambda>challenge_payload.
           ret (cid, remote_challenge, challenge_payload)))))))))"

definition sync :: "env \<Rightarrow> string list \<Rightarrow> unit prog" where
  "sync e ignore =
     bnd (sync_begin e ignore) (\<lambda>(cid, remote_challenge, challenge_payload).
     bnd (request e (Call PATCH (Challenge cid) (Json_payload (JDict challenge_payload))))
       (\<lambda>r.
     bnd (raise_for_status r) (\<lambda>_.
     bnd (sync_update e ignore remote_challenge) (\<lambda>_.
     bnd (gets doc) (\<lambda>d.
     bnd (lift (sync_make_visible ignore d remote_challenge)) (\<lambda>make_challenge_visible.
       only_if make_challenge_visible (make_visible e)))))))"

section \<open>create\<close>

fun reset_to_empty :: "string list \<Rightarrow> string list \<Rightarrow> pydict \<Rightarrow> pydict" where
  "reset_to_empty ignore [] payload = payload"
| "reset_to_empty ignore (p # ps) payload =
     reset_to_empty ignore ps (if p \<in> set ignore then dict_set payload p (JStr []) else payload)"

text \<open>
  \<open>create_begin\<close> is the part of \<open>create\<close> before its first remote call: the warnings on
  attributes that cannot be ignored, the checks of the name, the value and the files, and
  the payload.
\<close>

fun warn_unignorable :: "string list \<Rightarrow> string list \<Rightarrow> unit prog" where
  "warn_unignorable ignore [] = ret ()"
| "warn_unignorable ignore (attr # attrs) =
     bnd (only_if (attr \<in> set ignore)
            (secho [Txt (''Attribute '' @ [CHR 0x27]), Txt attr,
                    Txt ([CHR 0x27] @ '' cannot be ignored when creating a challenge'')])) (\<lambda>_.
       warn_unignorable ignore attrs)"

definition create_begin :: "string list \<Rightarrow> pydict prog" where
  "create_begin ignore =
     bnd (warn_unignorable ignore [''name'', ''value'']) (\<lambda>_.
     bnd (gets doc) (\<lambda>d.
       if \<not> truthy (dget d ''name'' (JBool False))
       then raise (InvalidChallengeDefinition [Txt ''Challenge does not provide a name''])
       else if \<not> truthy (dget d ''value'' (JBool False)) \<and>
               \<not> py_eq (dget d ''type'' (JStr ''standard'')) (JStr ''dynamic'')
       then raise (InvalidChallengeDefinition [Txt ''Challenge does not provide a value''])
       else
         bnd (only_if (truthy (dget d ''files'' (JBool False)) \<and> ''files'' \<notin> set ignore)
                validate_files) (\<lambda>_.
         bnd (lift (get_initial_challenge_payload ignore d)) (\<lambda>challenge_payload.
           ret (reset_to_empty ignore [''category'', ''description'', ''attribution'']
                  challenge_payload)))))"

text \<open>The sub-resources of a new challenge, in the order of the source.\<close>

definition create_entries_of :: "env \<Rightarrow> string list \<Rightarrow> unit prog" where
  "create_entries_of e ignore =
     bnd (gets doc) (\<lambda>d.
     bnd (only_if (truthy (dget d ''flags'' JNull) \<and> ''flags'' \<notin> set ignore)
            (create_flags e)) (\<lambda>_.
     bnd (only_if (truthy (dget d ''topics'' JNull) \<and> ''topics'' \<notin> set ignore)
            (create_topics e)) (\<lambda>_.
     bnd (only_if (truthy (dget d ''tags'' JNull) \<and> ''tags'' \<notin> set ignore)
            (create_tags e)) (\<lambda>_.
     bnd (only_if (truthy (dget d ''files'' JNull) \<and> ''files'' \<notin> set ignore)
            (create_all_files e)) (\<lambda>_.
     bnd (only_if (truthy (dget d ''hints'' JNull) \<and> ''hints'' \<notin> set ignore)
            (create_hints e)) (\<lambda>_.
     bnd (only_if (truthy (dget d ''requirements'' JNull) \<and> ''requirements'' \<notin> set ignore)
            (set_required_challenges e)) (\<lambda>_.
       only_if (''next'' \<notin> set ignore) (set_next e (dget d ''next'' JNull)))))))))"

text \<open>The test before the last call of \<open>create\<close>.\<close>

definition create_make_visible :: "string list \<Rightarrow> pydict \<Rightarrow> bool" where
  "create_make_visible ignore d =
     (py_eq (dget d ''state'' (JStr ''visible'')) (JStr ''visible'') \<or> ''state'' \<in> set ignore)"

definition create :: "env \<Rightarrow> string list \<Rightarrow> unit prog" where
  "create e ignore =
     bnd (create_begin ignore) (\<lambda>challenge_payload.
     bnd (request e (Call POST Challenges (Json_payload (JDict challenge_payload)))) (\<lambda>r.
     bnd (raise_for_status r) (\<lambda>_.
     bnd (lift (json_data r)) (\<lambda>data.
     bnd (lift (getitem data ''id'')) (\<lambda>i.
     bnd (set_challenge_id i) (\<lambda>_.
     bnd (create_entries_of e ignore) (\<lambda>_.
     bnd (gets doc) (\<lambda>d.
       only_if (create_make_visible ignore d) (make_visible e)))))))))"

section \<open>Normalising the remote challenge\<close>

text \<open>\<open>len(x)\<close>, \<open>x in container\<close> and \<open>x > 0\<close> on dynamically typed values.\<close>

fun py_len :: "json \<Rightarrow> exn + nat" where
  "py_len (JList xs) = Inr (length xs)"
| "py_len (JStr s) = Inr (length s)"
| "py_len (JDict d) = Inr (length d)"
| "py_len _ = Inl TypeError"

fun contains_str :: "string \<Rightarrow> string \<Rightarrow> bool" where
  "contains_str t [] = (t = [])"
| "contains_str t (c # cs) = (starts_with t (c # cs) \<or> contains_str t cs)"

fun py_contains :: "json \<Rightarrow> json \<Rightarrow> exn + bool" where
  "py_contains (JList xs) x = Inr (py_in x xs)"
| "py_contains (JDict d) x =
     (if \<not> hashable x then Inl TypeError
      else Inr (case x of JStr k \<Rightarrow> has_key d k | _ \<Rightarrow> False))"
| "py_contains (JStr s) x = (case x of JStr t \<Rightarrow> Inr (contains_str t s) | _ \<Rightarrow> Inl TypeError)"
| "py_contains _ x = Inl TypeError"

definition py_positive :: "json \<Rightarrow> exn + bool" where
  "py_positive x = (if int_like x then Inr (int_key x > 0) else Inl TypeError)"

fun text_of :: "json \<Rightarrow> exn + string" where
  "text_of (JStr s) = Inr s"
| "text_of _ = Inl AttributeError"

text \<open>The keys copied when present, and the keys lifted into \<open>extra\<close> and \<open>geo_flags\<close>.\<close>

fun copy_present :: "pydict \<Rightarrow> string list \<Rightarrow> pydict \<Rightarrow> pydict" where
  "copy_present challenge_data [] challenge = challenge"
| "copy_present challenge_data (key # keys) challenge =
     copy_present challenge_data keys
       (case map_of challenge_data key of
          None \<Rightarrow> challenge
        | Some v \<Rightarrow> dict_set challenge key v)"

definition lift_keys :: "pydict \<Rightarrow> string \<Rightarrow> string list \<Rightarrow> pydict \<Rightarrow> pydict" where
  "lift_keys challenge_data into keys challenge =
     (case copy_present challenge_data keys [] of
        [] \<Rightarrow> challenge
      | kv # kvs \<Rightarrow> dict_set challenge into (JDict (kv # kvs)))"

text \<open>The reshaping of one remote flag and of one remote hint.\<close>

definition normalize_flag :: "json \<Rightarrow> exn + json" where
  "normalize_flag f =
     (case getitem f ''type'' of
        Inl x \<Rightarrow> Inl x
      | Inr ty \<Rightarrow>
          (case (if py_eq ty (JStr ''static'')
                 then (case getitem f ''data'' of
                         Inl x \<Rightarrow> Inl x
                       | Inr dt \<Rightarrow> Inr (dt = JNull \<or> py_eq dt (JStr [])))
                 else Inr False) of
             Inl x \<Rightarrow> Inl x
           | Inr bare \<Rightarrow>
               (case getitem f ''content'' of
                  Inl x \<Rightarrow> Inl x
                | Inr c \<Rightarrow>
                    if bare then Inr c
                    else (case text_of c of
                            Inl x \<Rightarrow> Inl x
                          | Inr s \<Rightarrow>
                              (case getitem f ''data'' of
                                 Inl x \<Rightarrow> Inl x
                               | Inr dt \<Rightarrow>
                                   Inr (JDict [(''content'', JStr (strip_crlf s)),
                                               (''type'', ty), (''data'', dt)]))))))"

definition normalize_hint :: "json \<Rightarrow> exn + json" where
  "normalize_hint h =
     (case getitem h ''cost'' of
        Inl x \<Rightarrow> Inl x
      | Inr k \<Rightarrow>
          (case py_positive k of
             Inl x \<Rightarrow> Inl x
           | Inr costly \<Rightarrow>
               (case getitem h ''content'' of
                  Inl x \<Rightarrow> Inl x
                | Inr c \<Rightarrow>
                    Inr (if costly then JDict [(''content'', c), (''cost'', k)] else c))))"

fun map_exn :: "('a \<Rightarrow> exn + 'b) \<Rightarrow> 'a list \<Rightarrow> exn + 'b list" where
  "map_exn f [] = Inr []"
| "map_exn f (x # xs) =
     (case f x of
        Inl e \<Rightarrow> Inl e
      | Inr y \<Rightarrow> (case map_exn f xs of Inl e \<Rightarrow> Inl e | Inr ys \<Rightarrow> Inr (y # ys)))"

text \<open>
  \<open>[c["name"] for c in challenges if c["id"] in requirements]\<close>.
\<close>

fun names_of_required :: "json \<Rightarrow> json list \<Rightarrow> exn + json list" where
  "names_of_required requirements [] = Inr []"
| "names_of_required requirements (c # cs) =
     (case getitem c ''id'' of
        Inl x \<Rightarrow> Inl x
      | Inr i \<Rightarrow>
          (case py_contains requirements i of
             Inl x \<Rightarrow> Inl x
           | Inr True \<Rightarrow>
               (case getitem c ''name'' of
                  Inl x \<Rightarrow> Inl x
                | Inr n \<Rightarrow>
                    (case names_of_required requirements cs of
                       Inl x \<Rightarrow> Inl x
                     | Inr ns \<Rightarrow> Inr (n # ns)))
           | Inr False \<Rightarrow> names_of_required requirements cs))"

text \<open>A sub-resource listing: the GET, \<open>raise_for_status\<close>, then \<open>r.json()["data"]\<close>.\<close>

definition fetch_sub :: "env \<Rightarrow> string \<Rightarrow> json list prog" where
  "fetch_sub e kind =
     bnd (gets challenge_id) (\<lambda>cid.
     bnd (request e (Call GET (Challenge_sub cid kind) No_payload)) (\<lambda>r.
     bnd (raise_for_status r) (\<lambda>_.
     bnd (lift (json_data r)) (\<lambda>data. lift (iterate data)))))"

text \<open>
  The first part of \<open>_normalize_challenge\<close>, before any request: the scalar fields. A
  \<open>challenge_data\<close> that is no dict fails with a TypeError at a subscript at the latest.
\<close>

definition normalize_scalars :: "json \<Rightarrow> exn + pydict" where
  "normalize_scalars challenge_data =
     (case challenge_data of
        JDict cd \<Rightarrow>
          (case getitem challenge_data ''description'' of
             Inl x \<Rightarrow> Inl x
           | Inr dsc \<Rightarrow>
          (case text_of dsc of
             Inl x \<Rightarrow> Inl x
           | Inr dtext \<Rightarrow>
          (case text_of (dget cd ''attribution'' (JStr [])) of
             Inl x \<Rightarrow> Inl x
           | Inr atext \<Rightarrow>
          (case getitem challenge_data ''max_attempts'' of
             Inl x \<Rightarrow> Inl x
           | Inr att \<Rightarrow>
               Inr (lift_keys cd ''geo_flags'' [''latitude'', ''longitude'', ''tolerance_radius'']
                   (lift_keys cd ''extra'' [''initial'', ''decay'', ''minimum'']
                   (dict_set
                     (dict_set
                       (dict_set
                         (copy_present cd
                            [''name'', ''category'', ''attribution'', ''value'', ''type'',
                             ''state'', ''connection_info''] [])
                         ''description'' (JStr (replace_str [CHR 0x09] [] (strip_crlf dtext))))
                       ''attribution'' (JStr (replace_str [CHR 0x09] [] (strip_crlf atext))))
                     ''attempts'' att)))))))
      | _ \<Rightarrow> Inl TypeError)"

definition normalize_requirements :: "env \<Rightarrow> json prog" where
  "normalize_requirements e =
     bnd (gets challenge_id) (\<lambda>cid.
     bnd (request e (Call GET (Challenge_sub cid ''requirements'') No_payload)) (\<lambda>r.
     bnd (raise_for_status r) (\<lambda>_.
     bnd (lift (py_get (py_or (json_get_data r) (JDict [])) ''prerequisites'' (JList [])))
       (\<lambda>requirements.
     bnd (lift (py_len requirements)) (\<lambda>n.
     bnd (if n > 0
          then bnd (request e (Call GET Challenges_admin No_payload)) (\<lambda>r2.
               bnd (raise_for_status r2) (\<lambda>_.
               bnd (lift (json_data r2)) (\<lambda>data.
               bnd (lift (iterate data)) (\<lambda>challenges.
                 lift (names_of_required requirements challenges)))))
          else ret []) (\<lambda>prerequisites.
     bnd (lift (py_get (py_or (json_get_data r) (JDict [])) ''anonymize'' (JBool False)))
       (\<lambda>anonymize.
       ret (JDict [(''prerequisites'', JList prerequisites), (''anonymize'', anonymize)]))))))))"

definition normalize_next :: "env \<Rightarrow> json \<Rightarrow> json prog" where
  "normalize_next e challenge_data =
     bnd (lift (py_get challenge_data ''next_id'' JNull)) (\<lambda>nid.
       if truthy nid
       then bnd (request e (Call GET (Challenge nid) No_payload)) (\<lambda>r.
            bnd (raise_for_status r) (\<lambda>_.
              lift (py_get (py_or (json_get_data r) (JDict [])) ''name'' JNull)))
       else ret JNull)"

text \<open>
  \<open>_normalize_challenge\<close>. The six keys set after the scalar part are new to the dict, so
  each assignment appends.
\<close>

definition normalize_challenge :: "env \<Rightarrow> json \<Rightarrow> pydict prog" where
  "normalize_challenge e challenge_data =
     bnd (lift (normalize_scalars challenge_data)) (\<lambda>challenge.
     bnd (fetch_sub e ''flags'') (\<lambda>flags.
     bnd (lift (map_exn normalize_flag flags)) (\<lambda>fl.
     bnd (fetch_sub e ''tags'') (\<lambda>tags.
     bnd (lift (map_exn (\<lambda>t. getitem t ''value'') tags)) (\<lambda>tg.
     bnd (fetch_sub e ''hints'') (\<lambda>hints.
     bnd (lift (map_exn normalize_hint hints)) (\<lambda>hn.
     bnd (fetch_sub e ''topics'') (\<lambda>topics.
     bnd (lift (map_exn (\<lambda>t. getitem t ''value'') topics)) (\<lambda>tp.
     bnd (normalize_requirements e) (\<lambda>rq.
     bnd (normalize_next e challenge_data) (\<lambda>nx.
       ret (challenge @
            [(''flags'', JList fl), (''tags'', JList tg), (''hints'', JList hn),
             (''topics'', JList tp), (''requirements'', rq), (''next'', nx)]))))))))))))"

section \<open>verify\<close>

text \<open>
  \<open>is_default_challenge_property\<close>. The test \<open>value is None\<close> is identity with null; the
  others are \<open>==\<close>.
\<close>

definition is_default_challenge_property :: "string \<Rightarrow> json \<Rightarrow> bool" where
  "is_default_challenge_property key v =
     (if key = ''connection_info'' \<and> v = JNull then True
      else if key = ''attempts'' \<and> py_eq v (JInt 0) then True
      else if key = ''state'' \<and> py_eq v (JStr ''visible'') then True
      else if key = ''type'' \<and> py_eq v (JStr ''standard'') then True
      else if key \<in> set [''tags'', ''hints'', ''topics'', ''requirements'', ''files''] \<and>
              py_eq v (JList []) then True
      else if key = ''requirements'' \<and>
              py_eq v (JDict [(''prerequisites'', JList []), (''anonymize'', JBool False)])
      then True
      else if key = ''next'' \<and> v = JNull then True
      else False)"

text \<open>\<open>_compare_challenge_requirements\<close>: ids become names where the listing has them.\<close>

fun find_name_by_id :: "json \<Rightarrow> json list \<Rightarrow> exn + json option" where
  "find_name_by_id r [] = Inr None"
| "find_name_by_id r (c # cs) =
     (case getitem c ''id'' of
        Inl x \<Rightarrow> Inl x
      | Inr i \<Rightarrow>
          if py_eq i r
          then (case getitem c ''name'' of Inl x \<Rightarrow> Inl x | Inr n \<Rightarrow> Inr (Some n))
          else find_name_by_id r cs)"

fun names_for :: "json \<Rightarrow> json list \<Rightarrow> exn + json list" where
  "names_for remote_challenges [] = Inr []"
| "names_for remote_challenges (r # rs) =
     (case (if is_int r
            then (case iterate remote_challenges of
                    Inl x \<Rightarrow> Inl x
                  | Inr cs \<Rightarrow>
                      (case find_name_by_id r cs of
                         Inl x \<Rightarrow> Inl x
                       | Inr None \<Rightarrow> Inr []
                       | Inr (Some n) \<Rightarrow> Inr [n]))
            else Inr [r]) of
        Inl x \<Rightarrow> Inl x
      | Inr ns \<Rightarrow>
          (case names_for remote_challenges rs of
             Inl x \<Rightarrow> Inl x
           | Inr rest \<Rightarrow> Inr (ns @ rest)))"

definition sorted_names :: "json \<Rightarrow> json \<Rightarrow> exn + json list" where
  "sorted_names remote_challenges requirements =
     (case iterate requirements of
        Inl x \<Rightarrow> Inl x
      | Inr rs \<Rightarrow>
          (case names_for remote_challenges rs of
             Inl x \<Rightarrow> Inl x
           | Inr ns \<Rightarrow> py_sort ns))"

definition compare_challenge_requirements :: "env \<Rightarrow> json \<Rightarrow> json \<Rightarrow> bool prog" where
  "compare_challenge_requirements e r1 r2 =
     bnd (load_installed_challenges e) (\<lambda>remote_challenges.
     bnd (lift (sorted_names remote_challenges r1)) (\<lambda>nr1.
     bnd (lift (sorted_names remote_challenges r2)) (\<lambda>nr2.
       ret (py_eq (JList nr1) (JList nr2)))))"

text \<open>\<open>_compare_challenge_next\<close>: a positive id becomes the name of the challenge of that id.\<close>

definition canonical_next :: "env \<Rightarrow> json \<Rightarrow> json prog" where
  "canonical_next e r =
     (if is_int r
      then (if positive_int r
            then bnd (load_installed_challenge e r) (\<lambda>remote_challenge.
                 bnd (lift (getitem remote_challenge ''id'')) (\<lambda>i.
                   if py_eq i r then lift (getitem remote_challenge ''name'') else ret JNull))
            else ret JNull)
      else ret r)"

definition compare_challenge_next :: "env \<Rightarrow> json \<Rightarrow> json \<Rightarrow> bool prog" where
  "compare_challenge_next e r1 r2 =
     bnd (canonical_next e r1) (\<lambda>n1.
     bnd (canonical_next e r2) (\<lambda>n2. ret (py_eq n1 n2)))"

text \<open>
  One round of the loop of \<open>verify\<close> over the keys of the normalised challenge. The
  result \<open>True\<close> is \<open>continue\<close>; \<open>False\<close> is \<open>return False\<close>, after the diagnostic.
\<close>

definition requirements_agree :: "env \<Rightarrow> json \<Rightarrow> json \<Rightarrow> bool prog" where
  "requirements_agree e local remote =
     bnd (lift (case local of
                  JDict r \<Rightarrow>
                    (case getitem local ''prerequisites'' of
                       Inl x \<Rightarrow> Inl x
                     | Inr cr \<Rightarrow> Inr (cr, dget r ''anonymize'' (JBool False)))
                | _ \<Rightarrow> Inr (local, JBool False))) (\<lambda>cr_ca.
     bnd (lift (getitem remote ''prerequisites'')) (\<lambda>rr.
     bnd (compare_challenge_requirements e (fst cr_ca) rr) (\<lambda>same.
       if same
       then bnd (lift (getitem remote ''anonymize'')) (\<lambda>ra. ret (py_eq (snd cr_ca) ra))
       else ret False)))"

definition verify_key :: "env \<Rightarrow> string list \<Rightarrow> string \<Rightarrow> json \<Rightarrow> bool prog" where
  "verify_key e ignore key remote =
     (if key \<in> set ignore then ret True
      else
        bnd (gets doc) (\<lambda>challenge.
          case map_of challenge key of
            None \<Rightarrow>
              if is_default_challenge_property key remote then ret True
              else bnd (secho [Txt key, Txt '' is not in challenge.'']) (\<lambda>_. ret False)
          | Some local \<Rightarrow>
              if py_eq local remote then ret True
              else
                bnd (if key = ''requirements'' then requirements_agree e local remote
                     else ret False) (\<lambda>req_ok.
                  if req_ok then ret True
                  else
                    bnd (if key = ''next'' then compare_challenge_next e local remote
                         else ret False) (\<lambda>next_ok.
                      if next_ok then ret True
                      else bnd (secho [Txt key, Txt '' comparison failed.'']) (\<lambda>_.
                             ret False)))))"

fun verify_keys :: "env \<Rightarrow> string list \<Rightarrow> (string \<times> json) list \<Rightarrow> bool prog" where
  "verify_keys e ignore [] = ret True"
| "verify_keys e ignore (kv # kvs) =
     bnd (verify_key e ignore (fst kv) (snd kv)) (\<lambda>go_on.
       if go_on then verify_keys e ignore kvs else ret False)"

text \<open>
  The file checks of \<open>verify\<close>. \<open>_validate_files\<close> runs under \<open>try\<close>: only
  InvalidChallengeFile is caught and turned into a negative result.
\<close>

definition validate_files_caught :: "bool prog" where
  "validate_files_caught =
     (\<lambda>w. case validate_files w of
             (Inl (InvalidChallengeFile m), w') \<Rightarrow> (Inr False, w')
           | (Inl x, w') \<Rightarrow> (Inl x, w')
           | (Inr u, w') \<Rightarrow> (Inr True, w'))"

fun extra_local_file ::
  "(string \<times> remote_file) list \<Rightarrow> (string \<times> string) list \<Rightarrow> string option" where
  "extra_local_file remote_files [] = None"
| "extra_local_file remote_files (lf # lfs) =
     (if map_of remote_files (fst lf) = None then Some (fst lf)
      else extra_local_file remote_files lfs)"

text \<open>
  The loop over the remote files. A file whose remote checksum is known is compared by
  checksum, and the source returns from \<open>verify\<close> right there, with \<open>False\<close> on a
  difference and with \<open>True\<close> on a match: the files after it are not looked at. A file
  without a remote checksum is downloaded and compared, and the loop goes on.
\<close>

fun verify_remote_files ::
  "env \<Rightarrow> (string \<times> string) list \<Rightarrow> (json \<times> json) list \<Rightarrow> (string \<times> remote_file) list
     \<Rightarrow> bool prog" where
  "verify_remote_files e local_files sha1sums [] = ret True"
| "verify_remote_files e local_files sha1sums (rf # rfs) =
     (case map_of local_files (fst rf) of
        None \<Rightarrow>
          bnd (secho [Txt (fst rf), Txt '' is not in local challenge.'']) (\<lambda>_. ret False)
      | Some path \<Rightarrow>
          bnd (lift (sha1sum_at sha1sums (location (snd rf)))) (\<lambda>remote_file_sha1sum.
            if remote_file_sha1sum \<noteq> JNull
            then bnd (read_file path) (\<lambda>bytes.
                   if \<not> py_eq (JStr (hash_file e bytes)) remote_file_sha1sum
                   then bnd (secho [Txt ''sha1sum does not match with remote one.'']) (\<lambda>_.
                          ret False)
                   else ret True)
            else
              bnd (request e (Call GET (Url (url (snd rf))) No_payload)) (\<lambda>r.
              bnd (raise_for_status r) (\<lambda>_.
              bnd (read_file path) (\<lambda>bytes.
                if content r \<noteq> bytes
                then bnd (secho [Txt ''the file content does not match with the remote one.''])
                       (\<lambda>_. ret False)
                else verify_remote_files e local_files sha1sums rfs)))))"

definition verify_files :: "env \<Rightarrow> json \<Rightarrow> bool prog" where
  "verify_files e remote_files_list =
     bnd validate_files_caught (\<lambda>valid.
       if \<not> valid then bnd (secho [Txt ''InvalidChallengeFile'']) (\<lambda>_. ret False)
       else
         bnd (gets doc) (\<lambda>challenge.
         bnd (lift (getitem (JDict challenge) ''files'')) (\<lambda>files.
         bnd (lift (iterate files)) (\<lambda>fs.
         bnd (lift (local_files_into path_name [] fs)) (\<lambda>local_files.
         bnd (lift (normalize_remote_files remote_files_list)) (\<lambda>remote_files.
           case extra_local_file remote_files local_files of
             Some local_file \<Rightarrow>
               bnd (secho [Txt local_file, Txt '' is not in remote challenge.'']) (\<lambda>_.
                 ret False)
           | None \<Rightarrow>
               bnd (get_files_sha1sums e) (\<lambda>sha1sums.
                 verify_remote_files e local_files sha1sums remote_files)))))))"

text \<open>
  \<open>verify\<close> is written in two parts. \<open>verify_fetch\<close> finds the remote challenge and
  normalises it. Then the source assigns \<open>challenge["files"] = challenge.get("files") or []\<close>,
  where \<open>challenge\<close> is \<open>self\<close>, the document in memory, and compares: the keys of the
  normalised challenge first (they are distinct, so each round reads the value stored
  with its key), the files last.
\<close>

definition verify_fetch :: "env \<Rightarrow> (json \<times> pydict) prog" where
  "verify_fetch e =
     bnd (load_challenge_id e) (\<lambda>_.
     bnd (gets challenge_id) (\<lambda>cid.
     bnd (load_installed_challenge e cid) (\<lambda>remote_challenge.
     bnd (normalize_challenge e remote_challenge) (\<lambda>normalized_challenge.
       ret (remote_challenge, normalized_challenge)))))"

definition verify_compare :: "env \<Rightarrow> string list \<Rightarrow> json \<Rightarrow> pydict \<Rightarrow> bool prog" where
  "verify_compare e ignore remote_files_list normalized_challenge =
     bnd (verify_keys e ignore normalized_challenge) (\<lambda>same.
       if \<not> same then ret False
       else if ''files'' \<notin> set ignore then verify_files e remote_files_list
       else ret True)"

definition verify :: "env \<Rightarrow> string list \<Rightarrow> bool prog" where
  "verify e ignore =
     bnd (verify_fetch e) (\<lambda>(remote_challenge, normalized_challenge).
     bnd (lift (py_get remote_challenge ''files'' JNull)) (\<lambda>rf.
     bnd (gets doc) (\<lambda>d.
     bnd (set_doc (dict_set d ''files'' (py_or (dget d ''files'' JNull) (JList [])))) (\<lambda>_.
       verify_compare e ignore (py_or rf (JList [])) normalized_challenge))))"

section \<open>What an operation may change\<close>

text \<open>
  A call that reads: a GET. \<open>evolves P keep_doc keep_id w w'\<close> says how a state may have
  moved on: the calls sent since all satisfy \<open>P\<close>, the disk is as it was, and so are the
  document and \<open>self.challenge_id\<close> when \<open>keep_doc\<close> and \<open>keep_id\<close> are set.
  \<open>frame P keep_doc keep_id m\<close> says that the operation \<open>m\<close> moves every state on in this
  way, whether it returns or raises.
\<close>

fun is_read :: "call \<Rightarrow> bool" where
  "is_read (Call m ep p) = (m = GET)"

definition evolves :: "(call \<Rightarrow> bool) \<Rightarrow> bool \<Rightarrow> bool \<Rightarrow> world \<Rightarrow> world \<Rightarrow> bool" where
  "evolves P keep_doc keep_id w w' =
     ((\<exists>cs. calls w' = calls w @ cs \<and> list_all P cs) \<and> disk w' = disk w \<and>
      (if keep_doc then doc w' = doc w else True) \<and>
      (if keep_id then challenge_id w' = challenge_id w else True))"

definition frame :: "(call \<Rightarrow> bool) \<Rightarrow> bool \<Rightarrow> bool \<Rightarrow> 'a prog \<Rightarrow> bool" where
  "frame P keep_doc keep_id m = (\<forall>w. evolves P keep_doc keep_id w (snd (m w)))"

section \<open>The calls of the file pass\<close>

text \<open>
  What the file pass of \<open>sync\<close> is measured against. An entry of the remote's file
  listing is at a location when its \<open>location\<close> field equals it, and \<open>deletes_at\<close> is
  one DELETE for each entry at the location, in the order of the listing. \<open>listed\<close> is the
  listing the remote gives after the calls \<open>h\<close>, and \<open>create_call\<close> the POST of one file.
\<close>

definition listed_at :: "string \<Rightarrow> json \<Rightarrow> bool" where
  "listed_at loc x = (case getitem x ''location'' of Inl _ \<Rightarrow> False | Inr l \<Rightarrow> py_eq l (JStr loc))"

definition entry_id :: "json \<Rightarrow> json" where
  "entry_id x = (case getitem x ''id'' of Inl _ \<Rightarrow> JNull | Inr i \<Rightarrow> i)"

definition deletes_at :: "string \<Rightarrow> json list \<Rightarrow> call list" where
  "deletes_at loc entries =
     map (\<lambda>x. Call DELETE (Item ''files'' (entry_id x)) No_payload) (filter (listed_at loc) entries)"

definition create_call :: "json \<Rightarrow> (string \<times> string) list \<Rightarrow> string \<Rightarrow> call list" where
  "create_call cid dk path =
     (case map_of dk path of
        None \<Rightarrow> []
      | Some bytes \<Rightarrow>
          [Call POST (Collection ''files'') (Multipart [(path, bytes)] (files_payload cid))])"

definition listed :: "env \<Rightarrow> call list \<Rightarrow> json list" where
  "listed e h =
     (case json_data (respond e h (Call GET Files_challenge No_payload)) of
        Inl _ \<Rightarrow> []
      | Inr d \<Rightarrow> (case iterate d of Inl _ \<Rightarrow> [] | Inr xs \<Rightarrow> xs))"

text \<open>
  A local file is unchanged when the checksum the remote supplies for its location is
  not null and equals the checksum of the file on the disk.

  \<open>file_round\<close> lists the calls of one round of the loop over the local files, for the
  entry \<open>lf\<close> (basename and path) of the local files, after the calls \<open>h\<close>: a file the
  remote does not have is created; a file that is unchanged takes no call; any other file
  takes the listing, one DELETE for each entry at its location and the create.
  \<open>file_rounds\<close> lists the rounds of all the local files, each round after the calls of
  the rounds before it.
\<close>

definition unchanged ::
  "env \<Rightarrow> (json \<times> json) list \<Rightarrow> (string \<times> string) list \<Rightarrow> remote_file \<Rightarrow> string \<Rightarrow> bool" where
  "unchanged e sha1sums dk rf path =
     (case sha1sum_at sha1sums (location rf) of
        Inl _ \<Rightarrow> False
      | Inr sha \<Rightarrow>
          sha \<noteq> JNull \<and>
          (case map_of dk path of
             None \<Rightarrow> False
           | Some bytes \<Rightarrow> py_eq (JStr (hash_file e bytes)) sha))"

definition file_round ::
  "env \<Rightarrow> (string \<times> remote_file) list \<Rightarrow> (json \<times> json) list \<Rightarrow> (string \<times> string) list \<Rightarrow>
   json \<Rightarrow> call list \<Rightarrow> string \<times> string \<Rightarrow> call list" where
  "file_round e remote_files sha1sums dk cid h lf =
     (case map_of remote_files (fst lf) of
        None \<Rightarrow> create_call cid dk (snd lf)
      | Some rf \<Rightarrow>
          if unchanged e sha1sums dk rf (snd lf) then []
          else Call GET Files_challenge No_payload #
               deletes_at (location rf) (listed e h) @ create_call cid dk (snd lf))"

fun file_rounds ::
  "env \<Rightarrow> (string \<times> remote_file) list \<Rightarrow> (json \<times> json) list \<Rightarrow> (string \<times> string) list \<Rightarrow>
   json \<Rightarrow> call list \<Rightarrow> (string \<times> string) list \<Rightarrow> call list list" where
  "file_rounds e remote_files sha1sums dk cid h [] = []"
| "file_rounds e remote_files sha1sums dk cid h (lf # lfs) =
     file_round e remote_files sha1sums dk cid h lf #
     file_rounds e remote_files sha1sums dk cid
       (h @ file_round e remote_files sha1sums dk cid h lf) lfs"

text \<open>
  The values the file pass works on, as \<open>sync\<close> computes them: the local files of the
  document, the remote files of the fetched challenge, the checksums of the listing, and
  the challenge \<open>sync\<close> fetches once it has found the id.
\<close>

definition local_files_of :: "pydict \<Rightarrow> (string \<times> string) list" where
  "local_files_of d =
     (case iterate (py_or (dget d ''files'' JNull) (JList [])) of
        Inl _ \<Rightarrow> []
      | Inr fs \<Rightarrow> (case local_files_into last_part [] fs of Inl _ \<Rightarrow> [] | Inr lfs \<Rightarrow> lfs))"

definition remote_files_of :: "json \<Rightarrow> (string \<times> remote_file) list" where
  "remote_files_of remote_challenge =
     (case py_get remote_challenge ''files'' JNull of
        Inl _ \<Rightarrow> []
      | Inr rf \<Rightarrow>
          (case normalize_remote_files (py_or rf (JList [])) of Inl _ \<Rightarrow> [] | Inr rfs \<Rightarrow> rfs))"

definition sha1sums_of :: "env \<Rightarrow> call list \<Rightarrow> (json \<times> json) list" where
  "sha1sums_of e h = (case sha1sum_entries (listed e h) of Inl _ \<Rightarrow> [] | Inr sums \<Rightarrow> sums)"

definition fetched_challenge :: "env \<Rightarrow> world \<Rightarrow> json \<Rightarrow> json" where
  "fetched_challenge e w cid =
     json_get_data (respond e (calls w @ [Call GET Challenges_admin No_payload])
                      (Call GET (Challenge_admin cid) No_payload))"

text \<open>
  The kinds of call. A file is created by a POST to the files and deleted by a DELETE of
  one of them; a call that is neither mutates no file. The calls of the other
  sub-resources: a GET, a DELETE of an entry that is no file or of a topic, a POST of an
  entry that is no file, and a PATCH of the requirements or of the next link.
\<close>

fun is_file_create :: "call \<Rightarrow> bool" where
  "is_file_create (Call m ep p) = (m = POST \<and> ep = Collection ''files'')"

fun is_file_delete :: "call \<Rightarrow> bool" where
  "is_file_delete (Call m ep p) =
     (m = DELETE \<and> (case ep of Item kind i \<Rightarrow> kind = ''files'' | _ \<Rightarrow> False))"

definition no_file_mutation :: "call \<Rightarrow> bool" where
  "no_file_mutation c = (\<not> is_file_create c \<and> \<not> is_file_delete c)"

fun sub_resource_call :: "call \<Rightarrow> bool" where
  "sub_resource_call (Call GET ep p) = True"
| "sub_resource_call (Call DELETE (Item kind i) p) = (kind \<noteq> ''files'')"
| "sub_resource_call (Call DELETE (Topic_target i) p) = True"
| "sub_resource_call (Call POST (Collection kind) (Json_payload p)) = (kind \<noteq> ''files'')"
| "sub_resource_call (Call PATCH (Challenge cid) (Json_payload (JDict [kv]))) =
     (fst kv = ''requirements'' \<or> fst kv = ''next_id'')"
| "sub_resource_call _ = False"


section \<open>Sample remotes and documents\<close>

text \<open>
  The concrete inputs the statements below are run on. First the transports: one that
  brings back a refusal, one that brings back an object without data, one that brings
  back a listing of one challenge, one that breaks, one whose body is no JSON and one
  whose body is a JSON list.
\<close>

definition wire_of :: "exn + raw_response \<Rightarrow> wire" where
  "wire_of answer = (\<lambda>h c. answer)"

definition refused_reply :: raw_response where
  "refused_reply = \<lparr>raw_ok = False, raw_json = Inl JSONDecodeError\<rparr>"

definition no_data_reply :: raw_response where
  "no_data_reply = \<lparr>raw_ok = True, raw_json = Inr (JDict [(''success'', JBool True)])\<rparr>"

definition one_challenge_reply :: raw_response where
  "one_challenge_reply =
     \<lparr>raw_ok = True,
      raw_json = Inr (JDict [(''data'', JList [JDict [(''id'', JInt 1), (''name'', JStr ''chal'')]])])\<rparr>"

definition garbled_reply :: raw_response where
  "garbled_reply = \<lparr>raw_ok = True, raw_json = Inl JSONDecodeError\<rparr>"

definition list_reply :: raw_response where
  "list_reply = \<lparr>raw_ok = True, raw_json = Inr (JList [])\<rparr>"

text \<open>A remote that refuses every call.\<close>

definition down_remote :: env where
  "down_remote = \<lparr>respond = (\<lambda>h c. \<lparr>ok = False, json_body = [], content = []\<rparr>),
                   hash_file = (\<lambda>bytes. bytes)\<rparr>"

definition named_only :: world where
  "named_only = \<lparr>calls = [], doc = [(''name'', JStr ''chal'')], challenge_id = JNull,
                  warnings = [], disk = []\<rparr>"

text \<open>A document that lists a file the disk does not have.\<close>

definition missing_file :: world where
  "missing_file =
     \<lparr>calls = [],
      doc = [(''name'', JStr ''chal''), (''value'', JInt 100),
             (''files'', JList [JStr ''dist/chal.txt''])],
      challenge_id = JNull, warnings = [], disk = []\<rparr>"

text \<open>
  A remote that holds one challenge and a listing of its files, and grants every call.
  Its checksum of a file is taken to be \<open>sha1:\<close> followed by the contents.
\<close>

definition answer :: "json \<Rightarrow> response" where
  "answer data =
     \<lparr>ok = True, json_body = [(''success'', JBool True), (''data'', data)], content = []\<rparr>"

definition serve :: "json \<Rightarrow> json \<Rightarrow> env" where
  "serve challenge listing =
     \<lparr>respond = (\<lambda>h c. case c of
          Call GET Challenges_admin p \<Rightarrow> answer (JList [challenge])
        | Call GET (Challenge_admin i) p \<Rightarrow> answer challenge
        | Call GET (Challenge_sub i kind) p \<Rightarrow>
            answer (if kind = ''requirements'' then JDict [] else JList [])
        | Call GET (Collection kind) p \<Rightarrow> answer (JList [])
        | Call GET Files_challenge p \<Rightarrow> answer listing
        | Call m ep p \<Rightarrow> answer (JDict [(''id'', JInt 1)])),
      hash_file = (\<lambda>bytes. ''sha1:'' @ bytes)\<rparr>"

definition remote_chal :: "int \<Rightarrow> json list \<Rightarrow> json" where
  "remote_chal attempts files =
     JDict [(''id'', JInt 1), (''name'', JStr ''chal''), (''category'', JStr ''misc''),
            (''description'', JStr ''find it''), (''attribution'', JStr []),
            (''value'', JInt 100), (''type'', JStr ''standard''), (''state'', JStr ''visible''),
            (''max_attempts'', JInt attempts), (''files'', JList files)]"

definition local_chal :: pydict where
  "local_chal =
     [(''name'', JStr ''chal''), (''category'', JStr ''misc''),
      (''description'', JStr ''find it''), (''attribution'', JStr []),
      (''value'', JInt 100), (''flags'', JList [])]"

definition start :: "pydict \<Rightarrow> (string \<times> string) list \<Rightarrow> world" where
  "start d dk = \<lparr>calls = [], doc = d, challenge_id = JNull, warnings = [], disk = dk\<rparr>"

text \<open>
  Two remote files with their checksums, the document that lists both, and a disk where
  the first has the remote's contents and the second has been changed.
\<close>

definition two_files :: "json list" where
  "two_files = [JStr ''/files/aaa/a.txt?token=x'', JStr ''/files/bbb/b.txt?token=x'']"

definition two_sums :: json where
  "two_sums = JList
     [JDict [(''id'', JInt 10), (''location'', JStr ''aaa/a.txt''),
             (''sha1sum'', JStr ''sha1:AAA'')],
      JDict [(''id'', JInt 11), (''location'', JStr ''bbb/b.txt''),
             (''sha1sum'', JStr ''sha1:BBB'')]]"

definition with_two_files :: pydict where
  "with_two_files = local_chal @ [(''files'', JList [JStr ''a.txt'', JStr ''b.txt''])]"

definition second_changed :: "(string \<times> string) list" where
  "second_changed = [(''a.txt'', ''AAA''), (''b.txt'', ''changed'')]"

text \<open>
  \<open>refusing\<close> turns a remote into one that refuses the calls of a given kind. The
  listing \<open>twice_listed\<close> names the location of the second file in two entries.
  \<open>sample_head\<close> is what \<open>sync\<close> sends to the sample remote before it comes to the
  files.
\<close>

fun is_delete :: "call \<Rightarrow> bool" where
  "is_delete (Call m ep p) = (m = DELETE)"

definition refusing :: "(call \<Rightarrow> bool) \<Rightarrow> env \<Rightarrow> env" where
  "refusing R e =
     e\<lparr>respond := (\<lambda>h c. if R c then \<lparr>ok = False, json_body = [], content = []\<rparr>
                          else respond e h c)\<rparr>"

definition twice_listed :: json where
  "twice_listed = JList
     [JDict [(''id'', JInt 10), (''location'', JStr ''aaa/a.txt''),
             (''sha1sum'', JStr ''sha1:AAA'')],
      JDict [(''id'', JInt 11), (''location'', JStr ''bbb/b.txt''),
             (''sha1sum'', JStr ''sha1:BBB'')],
      JDict [(''id'', JInt 12), (''location'', JStr ''bbb/b.txt''),
             (''sha1sum'', JStr ''sha1:BBB'')]]"

definition sample_head :: "call list" where
  "sample_head =
     [Call GET Challenges_admin No_payload,
      Call GET (Challenge_admin (JInt 1)) No_payload,
      Call PATCH (Challenge (JInt 1))
       (Json_payload
         (JDict
           [(''name'', JStr ''chal''), (''category'', JStr ''misc''),
            (''description'', JStr ''find it''), (''attribution'', JStr []),
            (''type'', JStr ''standard''), (''state'', JStr ''hidden''),
            (''value'', JInt 100), (''max_attempts'', JInt 0),
            (''connection_info'', JNull)])),
      Call GET (Collection ''flags'') No_payload,
      Call GET (Challenge_sub (JInt 1) ''topics'') No_payload,
      Call GET (Collection ''tags'') No_payload]"

section \<open>Running an operation\<close>

text \<open>The equations that run an operation on a state.\<close>

lemmas run = bnd_def ret_def raise_def lift_def gets_def set_doc_def set_challenge_id_def
  secho_def request_def raise_for_status_def only_if_def

text \<open>The definitions unfolded to run the model on a sample.\<close>

lemmas model =
  verify_def verify_fetch_def verify_compare_def verify_files_def verify_key_def
  validate_files_caught_def validate_files_def
  load_challenge_id_def load_installed_challenges_def load_installed_challenge_def
  normalize_challenge_def normalize_scalars_def normalize_requirements_def normalize_next_def
  fetch_sub_def lift_keys_def normalize_flag_def normalize_hint_def
  is_default_challenge_property_def get_files_sha1sums_def sha1sum_at_def
  normalize_remote_files_def json_data_def json_get_data_def
  dget_def dict_set_def py_or_def path_exists_def read_file_def
  strip_crlf_def strip_def is_space_def

lemmas sync_model =
  sync_def sync_begin_def sync_update_def sync_files_def sync_local_file_def
  sync_make_visible_def get_initial_challenge_payload_def with_value_def merged_def
  delete_existing_flags_def delete_existing_tags_def delete_existing_hints_def
  delete_existing_topics_def delete_existing_def delete_file_def create_file_def
  set_next_def make_visible_def visible_payload_def files_payload_def next_payload_def
  dict_merge_def last_part_def

lemmas samples = serve_def answer_def remote_chal_def local_chal_def start_def two_files_def
  two_sums_def with_two_files_def second_changed_def

text \<open>The definitions unfolded to list the calls of the file pass on a sample.\<close>

lemmas rounds_model =
  file_round_def unchanged_def listed_def create_call_def deletes_at_def
  listed_at_def entry_id_def sha1sums_of_def remote_files_of_def local_files_of_def
  fetched_challenge_def last_part_def files_payload_def

section \<open>What every operation leaves alone\<close>

named_theorems frame_intros

lemma evolves_refl: "evolves P k j w w"
  by (simp add: evolves_def)

lemma evolves_trans: "evolves P k j a b \<Longrightarrow> evolves P k j b c \<Longrightarrow> evolves P k j a c"
  by (auto simp: evolves_def)

lemma frame_ret [frame_intros]: "frame P k j (ret x)"
  by (simp add: frame_def ret_def evolves_refl)

lemma frame_raise [frame_intros]: "frame P k j (raise x)"
  by (simp add: frame_def raise_def evolves_refl)

lemma frame_lift [frame_intros]: "frame P k j (lift r)"
  by (simp add: frame_def lift_def evolves_refl)

lemma frame_gets [frame_intros]: "frame P k j (gets g)"
  by (simp add: frame_def gets_def evolves_refl)

lemma frame_secho [frame_intros]: "frame P k j (secho m)"
  by (simp add: frame_def secho_def evolves_def)

lemma frame_set_challenge_id [frame_intros]: "frame P k False (set_challenge_id i)"
  by (simp add: frame_def set_challenge_id_def evolves_def)

lemma frame_set_doc [frame_intros]: "frame P False j (set_doc d)"
  by (simp add: frame_def set_doc_def evolves_def)

lemma frame_read_file [frame_intros]: "frame P k j (read_file p)"
  by (simp add: frame_def read_file_def evolves_def)

lemma frame_raise_for_status [frame_intros]: "frame P k j (raise_for_status r)"
  by (simp add: raise_for_status_def frame_ret frame_raise)

lemma frame_request [frame_intros]: "P c \<Longrightarrow> frame P k j (request e c)"
  by (simp add: frame_def request_def evolves_def)

lemma frame_bnd [frame_intros]:
  assumes "frame P k j m" and "\<And>x. frame P k j (f x)"
  shows "frame P k j (bnd m f)"
  unfolding frame_def
proof
  fix w
  show "evolves P k j w (snd (bnd m f w))"
  proof (cases "m w")
    case (Pair r w1)
    have step: "evolves P k j w w1" using assms(1) Pair by (auto simp: frame_def dest: spec [of _ w])
    show ?thesis
    proof (cases r)
      case (Inl x)
      with Pair step show ?thesis by (simp add: bnd_def)
    next
      case (Inr x)
      have "evolves P k j w1 (snd (f x w1))" using assms(2) by (simp add: frame_def)
      with step Pair Inr show ?thesis by (auto simp: bnd_def intro: evolves_trans)
    qed
  qed
qed

lemma frame_if [frame_intros]:
  "(b \<Longrightarrow> frame P k j m) \<Longrightarrow> (\<not> b \<Longrightarrow> frame P k j n) \<Longrightarrow> frame P k j (if b then m else n)"
  by simp

lemma frame_only_if [frame_intros]: "frame P k j m \<Longrightarrow> frame P k j (only_if b m)"
  by (simp add: only_if_def frame_ret)

lemma frame_weaken:
  "frame P True j m \<Longrightarrow> (\<And>c. P c \<Longrightarrow> Q c) \<Longrightarrow> frame Q k j m"
  unfolding frame_def evolves_def
proof
  fix w
  assume a: "\<forall>w. (\<exists>cs. calls (snd (m w)) = calls w @ cs \<and> list_all P cs) \<and>
      disk (snd (m w)) = disk w \<and> (if True then doc (snd (m w)) = doc w else True) \<and>
      (if j then challenge_id (snd (m w)) = challenge_id w else True)"
    and pq: "\<And>c. P c \<Longrightarrow> Q c"
  from a obtain cs where cs: "calls (snd (m w)) = calls w @ cs" "list_all P cs"
    "disk (snd (m w)) = disk w" "doc (snd (m w)) = doc w"
    "if j then challenge_id (snd (m w)) = challenge_id w else True" by auto
  from cs(2) pq have "list_all Q cs" by (auto simp: list_all_iff)
  with cs show "(\<exists>cs. calls (snd (m w)) = calls w @ cs \<and> list_all Q cs) \<and>
      disk (snd (m w)) = disk w \<and> (if k then doc (snd (m w)) = doc w else True) \<and>
      (if j then challenge_id (snd (m w)) = challenge_id w else True)" by auto
qed

lemma frame_load_installed_challenges [frame_intros]:
  "frame is_read k j (load_installed_challenges e)"
  unfolding load_installed_challenges_def by (intro frame_intros) simp_all

lemma frame_load_installed_challenge [frame_intros]:
  "frame is_read k j (load_installed_challenge e cid)"
  unfolding load_installed_challenge_def by (intro frame_intros) simp_all

lemma frame_load_challenge_id [frame_intros]: "frame is_read k False (load_challenge_id e)"
  unfolding load_challenge_id_def
  by (intro frame_intros conjI allI impI | simp split: option.split)+

lemma frame_fetch_sub [frame_intros]: "frame is_read k j (fetch_sub e kind)"
  unfolding fetch_sub_def by (intro frame_intros) simp_all

lemma frame_normalize_requirements [frame_intros]: "frame is_read k j (normalize_requirements e)"
  unfolding normalize_requirements_def by (intro frame_intros) simp_all

lemma frame_normalize_next [frame_intros]: "frame is_read k j (normalize_next e cd)"
  unfolding normalize_next_def by (intro frame_intros) simp_all

lemma frame_normalize_challenge [frame_intros]: "frame is_read k j (normalize_challenge e cd)"
  unfolding normalize_challenge_def by (intro frame_intros)

lemma frame_verify_fetch [frame_intros]: "frame is_read k False (verify_fetch e)"
  unfolding verify_fetch_def by (intro frame_intros)


lemma frame_compare_challenge_requirements [frame_intros]:
  "frame is_read k j (compare_challenge_requirements e r1 r2)"
  unfolding compare_challenge_requirements_def by (intro frame_intros)

lemma frame_canonical_next [frame_intros]: "frame is_read k j (canonical_next e r)"
  unfolding canonical_next_def by (intro frame_intros)

lemma frame_compare_challenge_next [frame_intros]:
  "frame is_read k j (compare_challenge_next e r1 r2)"
  unfolding compare_challenge_next_def by (intro frame_intros)

lemma frame_requirements_agree [frame_intros]:
  "frame is_read k j (requirements_agree e l r)"
  unfolding requirements_agree_def by (intro frame_intros)

lemma frame_verify_key [frame_intros]: "frame is_read k j (verify_key e ignore key v)"
  unfolding verify_key_def
  by (intro frame_intros conjI allI impI | simp split: option.split)+

lemma frame_verify_keys [frame_intros]: "frame is_read k j (verify_keys e ignore kvs)"
  by (induction kvs) (simp_all add: frame_intros)

lemma frame_validate_files [frame_intros]: "frame P k j validate_files"
  unfolding validate_files_def by (intro frame_intros)

lemma frame_validate_files_caught [frame_intros]: "frame P k j validate_files_caught"
proof -
  have "evolves P k j w (snd (validate_files_caught w))" for w
    using frame_validate_files [of P k j]
    by (auto simp: frame_def validate_files_caught_def split: prod.splits sum.splits exn.splits
        dest: spec [of _ w])
  then show ?thesis by (simp add: frame_def)
qed

lemma frame_get_files_sha1sums [frame_intros]: "frame is_read k j (get_files_sha1sums e)"
  unfolding get_files_sha1sums_def by (intro frame_intros) simp_all

lemma frame_verify_remote_files [frame_intros]:
  "frame is_read k j (verify_remote_files e local_files sha1sums rfs)"
  by (induction rfs)
     ((intro frame_intros conjI allI impI | simp split: option.split)+)

lemma frame_verify_files [frame_intros]: "frame is_read k j (verify_files e rfl)"
  unfolding verify_files_def
  by (intro frame_intros conjI allI impI | simp split: option.split)+

lemma frame_verify_compare [frame_intros]: "frame is_read k j (verify_compare e ignore rfl n)"
  unfolding verify_compare_def by (intro frame_intros)

section \<open>Requirements: what the payload carries\<close>

text \<open>
  C1. The prerequisites sent in the requirements PATCH are claimed to be free of
  duplicates and sorted. The code sorts, but it sends \<open>required_challenges\<close> and not the
  deduplicated \<open>required_challenge_ids\<close>: for a challenge of id 5 whose document lists the
  requirement 1 twice, the payload carries \<open>[1, 1]\<close>, whatever the remote answers.
\<close>

theorem set_required_challenges_keeps_duplicates:
  "calls (snd (set_required_challenges e
      (w\<lparr>doc := [(''name'', JStr ''chal''), (''requirements'', JList [JInt 1, JInt 1])],
         challenge_id := JInt 5\<rparr>))) =
   calls w @ [Call GET Challenges_admin No_payload,
     Call PATCH (Challenge (JInt 5))
       (Json_payload (requirements_payload [JInt 1, JInt 1] (JBool False)))]"
  by (simp add: set_required_challenges_def load_installed_challenges_def list_of_set_def
      py_in_def py_sort_def run)

text \<open>
  C4. Every self-reference is claimed to be dropped from the payload. \<open>remove\<close> takes out
  the first occurrence only, from the list that still has the duplicates: for a challenge
  of id 5 whose document lists 5 twice, the payload still carries \<open>[5]\<close>. The warning is
  printed and nothing is raised on account of the self-reference.
\<close>

theorem set_required_challenges_keeps_second_self_reference:
  "calls (snd (set_required_challenges e
      (w\<lparr>doc := [(''name'', JStr ''chal''), (''requirements'', JList [JInt 5, JInt 5])],
         challenge_id := JInt 5\<rparr>))) =
   calls w @ [Call GET Challenges_admin No_payload,
     Call PATCH (Challenge (JInt 5))
       (Json_payload (requirements_payload [JInt 5] (JBool False)))]"
  by (simp add: set_required_challenges_def load_installed_challenges_def list_of_set_def
      py_in_def py_sort_def run)

section \<open>The next link\<close>

text \<open>
  C5. A positive integer \<open>next\<close> is claimed to be sent as it is. The integer branch of
  \<open>_set_next\<close> reads a local variable that has no value there: with \<open>next: 7\<close> the
  operation raises UnboundLocalError, for every remote and from every state, and no call
  is sent.
\<close>

theorem set_next_integer_reference_raises:
  "fst (set_next e (JInt 7) w) = Inl (UnboundLocalError ''remote_challenge'') \<and>
   calls (snd (set_next e (JInt 7) w)) = calls w"
  by (simp add: set_next_def read_local_def run)

section \<open>Listing failures\<close>

text \<open>
  On a reliable transport the listing and the lookup of the id are the operations of the
  model above.
\<close>

lemma load_installed_challenges_reliable:
  "load_installed_challenges_wire (reliable e) = load_installed_challenges e"
  by (rule ext)
     (simp add: load_installed_challenges_wire_def load_installed_challenges_def reliable_def
        wire_request_def listing_call_def json_get_data_def run)

lemma load_challenge_id_reliable: "load_challenge_id_wire (reliable e) = load_challenge_id e"
  by (simp add: load_challenge_id_wire_def load_challenge_id_def
      load_installed_challenges_reliable)

text \<open>
  C10, as the code has it. When the listing comes back refused, or granted with an object
  whose data is missing or falsy, \<open>load_installed_challenges\<close> returns the empty list and
  \<open>_load_challenge_id\<close> ends in the same RemoteChallengeNotFound, with the same message
  and the same state: these failures cannot be told from an empty remote. Granted with
  data, the data is returned. A transport that raises, a body that is no JSON and a body
  that is no object make \<open>load_installed_challenges\<close> raise, and \<open>_load_challenge_id\<close>
  passes that exception on.
\<close>

theorem listing_swallows_refusals_only:
  "(t (calls w) listing_call = Inr r \<and>
    (\<not> raw_ok r \<or> (\<exists>d. raw_json r = Inr (JDict d) \<and> \<not> truthy (dget d ''data'' JNull))) \<longrightarrow>
      fst (load_installed_challenges_wire t w) = Inr (JList []) \<and>
      load_challenge_id_wire t w =
        (Inl (RemoteChallengeNotFound [Txt ''Could not load any remote challenges'']),
         w\<lparr>calls := calls w @ [listing_call]\<rparr>)) \<and>
   (t (calls w) listing_call = Inr r \<and> raw_ok r \<and>
    (\<exists>d. raw_json r = Inr (JDict d) \<and> truthy (dget d ''data'' JNull)) \<longrightarrow>
      (\<exists>d. raw_json r = Inr (JDict d) \<and>
           fst (load_installed_challenges_wire t w) = Inr (dget d ''data'' JNull))) \<and>
   (\<forall>x. t (calls w) listing_call = Inl x \<longrightarrow>
      fst (load_installed_challenges_wire t w) = Inl x \<and>
      fst (load_challenge_id_wire t w) = Inl x) \<and>
   (\<forall>x. t (calls w) listing_call = Inr r \<and> raw_ok r \<and> raw_json r = Inl x \<longrightarrow>
      fst (load_installed_challenges_wire t w) = Inl x \<and>
      fst (load_challenge_id_wire t w) = Inl x) \<and>
   (\<forall>v. t (calls w) listing_call = Inr r \<and> raw_ok r \<and> raw_json r = Inr v \<and> \<not> is_dict v \<longrightarrow>
      fst (load_installed_challenges_wire t w) = Inl AttributeError \<and>
      fst (load_challenge_id_wire t w) = Inl AttributeError)"
  by (auto simp: load_installed_challenges_wire_def load_challenge_id_wire_def wire_request_def
      listing_call_def run elim: is_dict.elims)

theorem listing_swallows_refusals_only_witness:
  "\<not> raw_ok refused_reply \<and>
   fst (load_installed_challenges_wire (wire_of (Inr refused_reply)) named_only) = Inr (JList []) \<and>
   load_challenge_id_wire (wire_of (Inr refused_reply)) named_only =
     (Inl (RemoteChallengeNotFound [Txt ''Could not load any remote challenges'']),
      named_only\<lparr>calls := calls named_only @ [listing_call]\<rparr>) \<and>
   raw_json no_data_reply = Inr (JDict [(''success'', JBool True)]) \<and>
   load_challenge_id_wire (wire_of (Inr no_data_reply)) named_only =
     (Inl (RemoteChallengeNotFound [Txt ''Could not load any remote challenges'']),
      named_only\<lparr>calls := calls named_only @ [listing_call]\<rparr>) \<and>
   fst (load_installed_challenges_wire (wire_of (Inr one_challenge_reply)) named_only) =
     Inr (JList [JDict [(''id'', JInt 1), (''name'', JStr ''chal'')]]) \<and>
   fst (load_challenge_id_wire (wire_of (Inl ConnectionError)) named_only) =
     Inl ConnectionError \<and>
   fst (load_challenge_id_wire (wire_of (Inr garbled_reply)) named_only) =
     Inl JSONDecodeError \<and>
   fst (load_challenge_id_wire (wire_of (Inr list_reply)) named_only) = Inl AttributeError"
  using
    listing_swallows_refusals_only [of "wire_of (Inr refused_reply)" named_only refused_reply]
    listing_swallows_refusals_only [of "wire_of (Inr no_data_reply)" named_only no_data_reply]
    listing_swallows_refusals_only
      [of "wire_of (Inr one_challenge_reply)" named_only one_challenge_reply]
    listing_swallows_refusals_only [of "wire_of (Inl ConnectionError)" named_only]
    listing_swallows_refusals_only [of "wire_of (Inr garbled_reply)" named_only garbled_reply]
    listing_swallows_refusals_only [of "wire_of (Inr list_reply)" named_only list_reply]
  by (simp add: wire_of_def refused_reply_def no_data_reply_def one_challenge_reply_def
      garbled_reply_def list_reply_def dget_def)

text \<open>
  C10, as it is claimed: \<open>load_installed_challenges\<close> is said never to raise and to turn
  every failure of the listing into the empty list. When the transport breaks, the
  exception of \<open>api.get\<close> leaves \<open>load_installed_challenges\<close> and \<open>_load_challenge_id\<close>
  as it is; when the call is granted with a body that is a JSON list, \<open>.get\<close> on it
  raises AttributeError.
\<close>

theorem listing_raises_on_broken_transport:
  "fst (load_installed_challenges_wire (wire_of (Inl ConnectionError)) named_only) =
     Inl ConnectionError \<and>
   fst (load_challenge_id_wire (wire_of (Inl ConnectionError)) named_only) =
     Inl ConnectionError \<and>
   fst (load_installed_challenges_wire (wire_of (Inr list_reply)) named_only) =
     Inl AttributeError"
  by (simp add: load_installed_challenges_wire_def load_challenge_id_wire_def wire_request_def
      wire_of_def list_reply_def run)

section \<open>create fails before it calls\<close>

lemma validate_each_missing:
  "\<not> list_all (path_exists dk) ps \<Longrightarrow>
   \<exists>m. validate_each dk (map JStr ps) = Inl (InvalidChallengeFile m)"
  by (induction ps) auto

lemma create_no_name:
  assumes "map_of (doc w) ''name'' = None"
  shows "fst (create e ignore w) =
           Inl (InvalidChallengeDefinition [Txt ''Challenge does not provide a name'']) \<and>
         calls (snd (create e ignore w)) = calls w"
  using assms by (simp add: create_def create_begin_def dget_def run)

lemma create_no_value:
  assumes "map_of (doc w) ''value'' = None"
    "\<not> py_eq (dget (doc w) ''type'' (JStr ''standard'')) (JStr ''dynamic'')"
  shows "(\<exists>m. fst (create e ignore w) = Inl (InvalidChallengeDefinition m)) \<and>
         calls (snd (create e ignore w)) = calls w"
  using assms by (simp add: create_def create_begin_def dget_def run)

lemma create_missing_file:
  assumes "''files'' \<notin> set ignore" "map_of (doc w) ''files'' = Some (JList (map JStr ps))"
      "\<not> list_all (path_exists (disk w)) ps"
  shows "(\<exists>m. fst (create e ignore w) = Inl (InvalidChallengeDefinition m) \<or>
              fst (create e ignore w) = Inl (InvalidChallengeFile m)) \<and>
         calls (snd (create e ignore w)) = calls w"
proof -
  from assms have "ps \<noteq> []" by auto
  moreover obtain m where "validate_each (disk w) (map JStr ps) = Inl (InvalidChallengeFile m)"
    using validate_each_missing [OF assms(3)] by blast
  ultimately show ?thesis using assms
    by (simp add: create_def create_begin_def dget_def validate_files_def py_or_def run)
qed

text \<open>
  C9. \<open>create\<close> raises InvalidChallengeDefinition or InvalidChallengeFile, and has sent no
  call, whenever the document has no \<open>name\<close>, or has no \<open>value\<close> while its type is not
  dynamic, or, with \<open>files\<close> not ignored, lists paths one of which is not on disk. The
  remote only changes through calls, so it is left as it was.
\<close>

theorem create_rejects_before_any_call:
  assumes "map_of (doc w) ''name'' = None \<or>
           (map_of (doc w) ''value'' = None \<and>
            \<not> py_eq (dget (doc w) ''type'' (JStr ''standard'')) (JStr ''dynamic'')) \<or>
           (''files'' \<notin> set ignore \<and>
            (\<exists>ps. map_of (doc w) ''files'' = Some (JList (map JStr ps)) \<and>
                  \<not> list_all (path_exists (disk w)) ps))"
  shows "(\<exists>m. fst (create e ignore w) = Inl (InvalidChallengeDefinition m) \<or>
              fst (create e ignore w) = Inl (InvalidChallengeFile m)) \<and>
         calls (snd (create e ignore w)) = calls w"
  using assms create_no_name [of w e ignore] create_no_value [of w e ignore]
    create_missing_file [of ignore w _ e]
  by blast

theorem create_rejects_before_any_call_witness:
  "''files'' \<notin> set [] \<and>
   map_of (doc missing_file) ''files'' = Some (JList (map JStr [''dist/chal.txt''])) \<and>
   \<not> list_all (path_exists (disk missing_file)) [''dist/chal.txt''] \<and>
   fst (create down_remote [] missing_file) =
     Inl (InvalidChallengeFile [Txt ''File '', Val (JStr ''dist/chal.txt''),
                                Txt '' could not be loaded'']) \<and>
   calls (snd (create down_remote [] missing_file)) = []"
  using create_rejects_before_any_call [of missing_file "[]" down_remote]
  by (simp add: missing_file_def path_exists_def create_def create_begin_def dget_def
      validate_files_def py_or_def run)

section \<open>verify reads\<close>

lemma verify_calls_disk: "frame is_read False False (verify e ignore)"
  unfolding verify_def
  by (intro frame_intros conjI allI impI | simp split: prod.split)+

lemma frame_doc: "frame P True j m \<Longrightarrow> doc (snd (m w)) = doc w"
  by (simp add: frame_def evolves_def)

lemma verify_doc:
  "doc (snd (verify e ignore w)) = doc w \<or>
   doc (snd (verify e ignore w)) =
     dict_set (doc w) ''files'' (py_or (dget (doc w) ''files'' JNull) (JList []))"
proof (cases "verify_fetch e w")
  case (Pair r w1)
  have d1: "doc w1 = doc w"
    using frame_doc [OF frame_verify_fetch, of e w] Pair by simp
  show ?thesis
  proof (cases r)
    case (Inl x)
    with Pair d1 show ?thesis by (simp add: verify_def bnd_def)
  next
    case (Inr p)
    obtain rc n where p: "p = (rc, n)" by (cases p)
    show ?thesis
    proof (cases "py_get rc ''files'' JNull")
      case (Inl x)
      with Pair Inr p d1 show ?thesis by (simp add: verify_def run)
    next
      case rf: (Inr rf)
      have "doc (snd (verify_compare e ignore (py_or rf (JList [])) n w2)) = doc w2" for w2
        by (rule frame_doc [OF frame_verify_compare])
      with Pair Inr p d1 rf show ?thesis by (simp add: verify_def run)
    qed
  qed
qed

text \<open>
  C2, as the code has it. Whatever the remote, the ignore-set, the state and the outcome,
  \<open>verify\<close> sends only GET calls and leaves the disk as it was. Of the document in memory
  it changes at most the key \<open>files\<close>, which it sets to the document's own \<open>files\<close>
  value, or to the empty list when that value is absent or falsy.
\<close>

theorem verify_only_reads:
  "(\<exists>cs. calls (snd (verify e ignore w)) = calls w @ cs \<and> list_all is_read cs) \<and>
   disk (snd (verify e ignore w)) = disk w \<and>
   (doc (snd (verify e ignore w)) = doc w \<or>
    doc (snd (verify e ignore w)) =
      dict_set (doc w) ''files'' (py_or (dget (doc w) ''files'' JNull) (JList [])))"
  using verify_calls_disk [of e ignore] verify_doc [of e ignore w]
  by (simp add: frame_def evolves_def)

theorem verify_only_reads_witness:
  "list_all is_read (calls (snd (verify (serve (remote_chal 0 []) (JList [])) []
      (start local_chal [])))) \<and>
   disk (snd (verify (serve (remote_chal 0 []) (JList [])) [] (start local_chal []))) = [] \<and>
   doc (snd (verify (serve (remote_chal 0 []) (JList [])) [] (start local_chal []))) =
     dict_set local_chal ''files'' (JList [])"
  using verify_only_reads [of "serve (remote_chal 0 []) (JList [])" "[]" "start local_chal []"]
  by (simp add: model run samples)

text \<open>
  C2, as it is claimed: the document is said to be left exactly as it was, no key added.
  A document without \<open>files\<close> that verifies against its remote challenge comes out of
  \<open>verify\<close> with the key \<open>files\<close>, bound to the empty list.
\<close>

theorem verify_adds_files_key:
  "map_of (doc (start local_chal [])) ''files'' = None \<and>
   fst (verify (serve (remote_chal 0 []) (JList [])) [] (start local_chal [])) = Inr True \<and>
   map_of (doc (snd (verify (serve (remote_chal 0 []) (JList [])) [] (start local_chal []))))
     ''files'' = Some (JList [])"
  by (simp add: model run samples)

section \<open>verify and the files\<close>

text \<open>
  C3. \<open>verify\<close> is claimed to return true only if every pair of files compares equal. In
  the loop over the remote files, a file whose checksum matches makes the source return
  \<open>True\<close> at once. Here the remote has \<open>a.txt\<close> and \<open>b.txt\<close> with their checksums, the
  document lists both, both are on disk, \<open>a.txt\<close> matches and \<open>b.txt\<close> has other
  contents: its checksum differs from the remote's, and \<open>verify\<close> returns \<open>True\<close>.
\<close>

theorem verify_returns_at_first_matching_checksum:
  "sha1sum_at [(JStr ''aaa/a.txt'', JStr ''sha1:AAA''), (JStr ''bbb/b.txt'', JStr ''sha1:BBB'')]
     ''bbb/b.txt'' = Inr (JStr ''sha1:BBB'') \<and>
   hash_file (serve (remote_chal 0 two_files) two_sums) ''changed'' = ''sha1:changed'' \<and>
   fst (verify (serve (remote_chal 0 two_files) two_sums) []
          (start with_two_files second_changed)) = Inr True"
  by (simp add: model run samples last_part_def path_name_def)

section \<open>verify and the default of attempts\<close>

lemma bnd_Inr:
  assumes "bnd m f w = (Inr y, w')"
  obtains x w1 where "m w = (Inr x, w1)" "f x w1 = (Inr y, w')"
  using assms by (auto simp: bnd_def split: prod.splits sum.splits)

lemma verify_key_plain:
  assumes "key \<noteq> ''requirements''" "key \<noteq> ''next''"
  shows "verify_key e ignore key v w = (Inr True, w) \<or>
         (fst (verify_key e ignore key v w) = Inr False \<and>
          (\<exists>msg. warnings (snd (verify_key e ignore key v w)) = warnings w @ [msg]))"
  using assms by (simp add: verify_key_def run split: option.split)

lemma verify_key_missing:
  assumes "key \<notin> set ignore" "map_of (doc w) key = None"
    "\<not> is_default_challenge_property key v"
  shows "fst (verify_key e ignore key v w) = Inr False \<and>
         (\<exists>msg. warnings (snd (verify_key e ignore key v w)) = warnings w @ [msg])"
  using assms by (simp add: verify_key_def run)

lemma verify_keys_after_False:
  assumes "fst (verify_key e ignore (fst kv) (snd kv) w) = Inr False"
  shows "verify_keys e ignore (kv # kvs) w =
           (Inr False, snd (verify_key e ignore (fst kv) (snd kv) w))"
  using assms by (cases "verify_key e ignore (fst kv) (snd kv) w") (simp add: bnd_def ret_def)

lemma verify_keys_stops:
  assumes "map_of kvs key = Some v" "\<not> is_default_challenge_property key v"
    "key \<notin> set ignore" "map_of (doc w) key = None"
    "''requirements'' \<notin> fst ` set kvs" "''next'' \<notin> fst ` set kvs"
  shows "fst (verify_keys e ignore (kvs @ rest) w) = Inr False \<and>
         (\<exists>msg. warnings (snd (verify_keys e ignore (kvs @ rest) w)) = warnings w @ [msg])"
  using assms
proof (induction kvs)
  case Nil
  then show ?case by simp
next
  case (Cons kv kvs)
  show ?case
  proof (cases "fst kv = key")
    case True
    with Cons.prems have "snd kv = v" by (cases kv) simp
    with True Cons.prems verify_key_missing [of key ignore w v e]
    have "fst (verify_key e ignore (fst kv) (snd kv) w) = Inr False \<and>
         (\<exists>msg. warnings (snd (verify_key e ignore (fst kv) (snd kv) w)) = warnings w @ [msg])"
      by simp
    then show ?thesis using verify_keys_after_False [of e ignore kv w "kvs @ rest"] by simp
  next
    case False
    from Cons.prems have ne: "fst kv \<noteq> ''requirements''" "fst kv \<noteq> ''next''" by auto
    from False Cons.prems have tl: "map_of kvs key = Some v" by (cases kv) (auto split: if_splits)
    from verify_key_plain [OF ne, of e ignore "snd kv" w] show ?thesis
    proof
      assume go: "verify_key e ignore (fst kv) (snd kv) w = (Inr True, w)"
      from Cons.IH [OF tl Cons.prems(2,3,4)] Cons.prems(5,6)
      have "fst (verify_keys e ignore (kvs @ rest) w) = Inr False \<and>
         (\<exists>msg. warnings (snd (verify_keys e ignore (kvs @ rest) w)) = warnings w @ [msg])"
        by auto
      with go show ?thesis by (simp add: bnd_def)
    next
      assume "fst (verify_key e ignore (fst kv) (snd kv) w) = Inr False \<and>
          (\<exists>msg. warnings (snd (verify_key e ignore (fst kv) (snd kv) w)) = warnings w @ [msg])"
      then show ?thesis using verify_keys_after_False [of e ignore kv w "kvs @ rest"] by simp
    qed
  qed
qed


lemma keys_copy_present:
  "fst ` set (copy_present cd ks acc) \<subseteq> set ks \<union> fst ` set acc"
proof (induction ks arbitrary: acc)
  case Nil
  then show ?case by simp
next
  case (Cons k ks)
  show ?case using Cons.IH [of "case map_of cd k of None \<Rightarrow> acc | Some v \<Rightarrow> dict_set acc k v"]
    by (auto simp: dict_set_def dom_update split: option.splits)
qed

lemma keys_dict_set: "fst ` set (dict_set d k v) = insert k (fst ` set d)"
  by (simp add: dict_set_def dom_update)

lemma keys_lift_keys:
  "fst ` set (lift_keys cd into ks ch) \<subseteq> insert into (fst ` set ch)"
  by (auto simp: lift_keys_def dict_set_def dom_update split: list.splits)

lemma map_of_lift_keys:
  "key \<noteq> into \<Longrightarrow> map_of (lift_keys cd into ks ch) key = map_of ch key"
  by (simp add: lift_keys_def dict_set_def update_conv' split: list.splits)

lemma normalize_scalars_shape:
  assumes "normalize_scalars rc = Inr sc"
  shows "\<exists>cd a b att. rc = JDict cd \<and> getitem rc ''max_attempts'' = Inr att \<and>
     sc = lift_keys cd ''geo_flags'' [''latitude'', ''longitude'', ''tolerance_radius'']
           (lift_keys cd ''extra'' [''initial'', ''decay'', ''minimum'']
             (dict_set (dict_set (dict_set (copy_present cd
      [''name'', ''category'', ''attribution'', ''value'', ''type'', ''state'',
       ''connection_info''] []) ''description'' a) ''attribution'' b)
                ''attempts'' att))"
proof (cases rc)
  case (JDict cd)
  show ?thesis
  proof (cases "getitem rc ''description''")
    case (Inl x) with assms JDict show ?thesis by (simp add: normalize_scalars_def del: copy_present.simps)
  next
    case d: (Inr dsc)
    show ?thesis
    proof (cases "text_of dsc")
      case (Inl x) with assms JDict d show ?thesis by (simp add: normalize_scalars_def del: copy_present.simps)
    next
      case t: (Inr dtext)
      show ?thesis
      proof (cases "text_of (dget cd ''attribution'' (JStr []))")
        case (Inl x) with assms JDict d t show ?thesis by (simp add: normalize_scalars_def del: copy_present.simps)
      next
        case a: (Inr atext)
        show ?thesis
        proof (cases "getitem rc ''max_attempts''")
          case (Inl x) with assms JDict d t a show ?thesis by (simp add: normalize_scalars_def del: copy_present.simps)
        next
          case (Inr att)
          with assms JDict d t a show ?thesis
            by (auto simp add: normalize_scalars_def simp del: copy_present.simps)
        qed
      qed
    qed
  qed
qed (use assms in \<open>simp_all add: normalize_scalars_def\<close>)

lemma normalize_scalars_attempts:
  assumes "normalize_scalars rc = Inr sc"
  shows "(\<exists>att. getitem rc ''max_attempts'' = Inr att \<and> map_of sc ''attempts'' = Some att) \<and>
         ''requirements'' \<notin> fst ` set sc \<and> ''next'' \<notin> fst ` set sc"
proof -
  let ?ks = "[''name'', ''category'', ''attribution'', ''value'', ''type'', ''state'',
       ''connection_info'']"
  from normalize_scalars_shape [OF assms] obtain cd a b att where
    att: "getitem rc ''max_attempts'' = Inr att" and
    sc: "sc = lift_keys cd ''geo_flags'' [''latitude'', ''longitude'', ''tolerance_radius'']
           (lift_keys cd ''extra'' [''initial'', ''decay'', ''minimum'']
             (dict_set (dict_set (dict_set (copy_present cd ?ks []) ''description'' a)
                ''attribution'' b) ''attempts'' att))"
    by blast
  have m: "map_of sc ''attempts'' = Some att"
    unfolding sc by (simp add: map_of_lift_keys dict_set_def update_conv' del: copy_present.simps)
  have base: "fst ` set (copy_present cd ?ks []) \<subseteq> set ?ks"
    using keys_copy_present [of cd ?ks "[]"] by simp
  let ?d3 = "dict_set (dict_set (dict_set (copy_present cd ?ks []) ''description'' a)
                ''attribution'' b) ''attempts'' att"
  have d3: "fst ` set ?d3 \<subseteq> {''attempts'', ''attribution'', ''description''} \<union> set ?ks"
    using base unfolding keys_dict_set by blast
  have "fst ` set sc \<subseteq> insert ''geo_flags'' (insert ''extra'' (fst ` set ?d3))"
    unfolding sc
    using keys_lift_keys [of cd "''geo_flags''" "[''latitude'', ''longitude'', ''tolerance_radius'']"
        "lift_keys cd ''extra'' [''initial'', ''decay'', ''minimum''] ?d3"]
      keys_lift_keys [of cd "''extra''" "[''initial'', ''decay'', ''minimum'']" ?d3]
    by blast
  with d3 have "fst ` set sc \<subseteq> {''geo_flags'', ''extra'', ''attempts'', ''attribution'',
      ''description''} \<union> set ?ks"
    by blast
  then have "''requirements'' \<notin> fst ` set sc \<and> ''next'' \<notin> fst ` set sc" by auto
  with m att show ?thesis by simp
qed

lemma normalize_challenge_shape:
  assumes "normalize_challenge e rc w = (Inr n, w')"
  shows "\<exists>sc rest. normalize_scalars rc = Inr sc \<and> n = sc @ rest"
  using assms unfolding normalize_challenge_def
  by (elim bnd_Inr) (auto simp: lift_def ret_def)

lemma verify_fetch_shape:
  assumes "verify_fetch e w = (Inr (rc, n), w1)"
  shows "\<exists>sc rest. normalize_scalars rc = Inr sc \<and> n = sc @ rest"
  using assms unfolding verify_fetch_def
  by (elim bnd_Inr) (auto simp: ret_def dest: normalize_challenge_shape)

lemma verify_attempts_round:
  assumes "map_of (doc w) ''attempts'' = None"
  shows "verify_key e ignore ''attempts'' (JInt 0) w = (Inr True, w)"
  using assms by (simp add: verify_key_def is_default_challenge_property_def run)

lemma verify_attempts_mismatch:
  assumes fetch: "verify_fetch e w = (Inr (rc, n), w1)"
    and ma: "getitem rc ''max_attempts'' = Inr (JInt 3)"
    and nodoc: "map_of (doc w) ''attempts'' = None"
    and ni: "''attempts'' \<notin> set ignore"
  shows "fst (verify e ignore w) = Inr False \<and>
         (\<exists>msg. warnings (snd (verify e ignore w)) = warnings w1 @ [msg])"
proof -
  from verify_fetch_shape [OF fetch] obtain sc rest where
    sc: "normalize_scalars rc = Inr sc" and n: "n = sc @ rest" by blast
  from normalize_scalars_attempts [OF sc] ma have
    att: "map_of sc ''attempts'' = Some (JInt 3)"
    and nk: "''requirements'' \<notin> fst ` set sc" "''next'' \<notin> fst ` set sc" by auto
  from ma obtain cd where rc: "rc = JDict cd" by (cases rc) simp_all
  have d1: "doc w1 = doc w"
    using frame_doc [OF frame_verify_fetch, of e w] fetch by simp
  define w2 where
    "w2 = w1\<lparr>doc := dict_set (doc w) ''files'' (py_or (dget (doc w) ''files'' JNull) (JList []))\<rparr>"
  have run1: "verify e ignore w =
      verify_compare e ignore (py_or (dget cd ''files'' JNull) (JList [])) n w2"
    using fetch rc d1 by (simp add: verify_def w2_def run)
  have nodoc2: "map_of (doc w2) ''attempts'' = None"
    using nodoc by (simp add: w2_def dict_set_def update_conv')
  have nd: "\<not> is_default_challenge_property ''attempts'' (JInt 3)"
    by (simp add: is_default_challenge_property_def)
  from verify_keys_stops [OF att nd ni nodoc2 nk, of e rest]
  obtain msg where
    k: "fst (verify_keys e ignore n w2) = Inr False"
       "warnings (snd (verify_keys e ignore n w2)) = warnings w2 @ [msg]"
    unfolding n by blast
  have "verify_compare e ignore rfl n w2 = (Inr False, snd (verify_keys e ignore n w2))" for rfl
    using k(1) by (cases "verify_keys e ignore n w2") (simp add: verify_compare_def run)
  with k run1 show ?thesis by (simp add: w2_def)
qed


text \<open>
  C8. For a document without \<open>attempts\<close>: the round of the comparison for \<open>attempts\<close>
  against the remote value 0 goes on to the next key, with the state as it was. Against a
  remote challenge whose \<open>max_attempts\<close> is 3, with \<open>attempts\<close> not ignored, \<open>verify\<close>
  returns \<open>False\<close> once the remote challenge is fetched and normalised, and prints one
  diagnostic.
\<close>

theorem verify_attempts_default_elision:
  assumes "map_of (doc w) ''attempts'' = None"
  shows "verify_key e ignore ''attempts'' (JInt 0) w = (Inr True, w) \<and>
         (''attempts'' \<notin> set ignore \<longrightarrow>
          (\<forall>rc n w1. verify_fetch e w = (Inr (rc, n), w1) \<longrightarrow>
             getitem rc ''max_attempts'' = Inr (JInt 3) \<longrightarrow>
             fst (verify e ignore w) = Inr False \<and>
             (\<exists>msg. warnings (snd (verify e ignore w)) = warnings w1 @ [msg])))"
  using assms verify_attempts_round [of w e ignore] verify_attempts_mismatch [of e w _ _ _ ignore]
  by blast

theorem verify_attempts_default_elision_witness:
  "map_of (doc (start local_chal [])) ''attempts'' = None \<and>
   ''attempts'' \<notin> set [] \<and>
   fst (verify (serve (remote_chal 0 []) (JList [])) [] (start local_chal [])) = Inr True \<and>
   (\<exists>n w1. verify_fetch (serve (remote_chal 3 []) (JList [])) (start local_chal []) =
      (Inr (remote_chal 3 [], n), w1)) \<and>
   getitem (remote_chal 3 []) ''max_attempts'' = Inr (JInt 3) \<and>
   fst (verify (serve (remote_chal 3 []) (JList [])) [] (start local_chal [])) = Inr False \<and>
   warnings (snd (verify (serve (remote_chal 3 []) (JList [])) [] (start local_chal []))) =
     [[Txt ''attempts'', Txt '' is not in challenge.'']]"
  using verify_attempts_default_elision
    [of "start local_chal []" "serve (remote_chal 3 []) (JList [])" "[]"]
  by (simp add: model run samples)

text \<open>
  C8, as it is claimed, for every invocation: with \<open>attempts\<close> in the ignore-set the key
  is passed over, and a document without \<open>attempts\<close> verifies against a remote challenge
  whose \<open>max_attempts\<close> is 3.
\<close>

theorem verify_passes_over_ignored_attempts:
  "map_of (doc (start local_chal [])) ''attempts'' = None \<and>
   getitem (remote_chal 3 []) ''max_attempts'' = Inr (JInt 3) \<and>
   fst (verify (serve (remote_chal 3 []) (JList [])) [''attempts''] (start local_chal [])) =
     Inr True"
  by (simp add: model run samples)

section \<open>sync and the files that changed\<close>

text \<open>
  A run that returns has sent what it lists: first for the deletion of the entries at a
  location, then for one file, then for the loop over the local files.
\<close>

lemma delete_where_done:
  assumes "delete_where e ''files'' ''location'' (JStr loc) xs w = (Inr (), w')"
  shows "w' = w\<lparr>calls := calls w @ deletes_at loc xs\<rparr>"
  using assms
proof (induction xs arbitrary: w)
  case Nil
  then show ?case by (simp add: deletes_at_def run)
next
  case (Cons x xs)
  from Cons.prems obtain l where l: "getitem x ''location'' = Inr l"
    by (cases "getitem x ''location''") (simp_all add: run)
  show ?case
  proof (cases "py_eq l (JStr loc)")
    case True
    from Cons.prems l True obtain i where i: "getitem x ''id'' = Inr i"
      by (cases "getitem x ''id''") (simp_all add: run)
    let ?c = "Call DELETE (Item ''files'' i) No_payload"
    from Cons.prems l True i have g: "ok (respond e (calls w) ?c)"
      by (simp add: run split: if_splits)
    with Cons.prems l True i have
      "delete_where e ''files'' ''location'' (JStr loc) xs (w\<lparr>calls := calls w @ [?c]\<rparr>) =
         (Inr (), w')"
      by (simp add: run)
    from Cons.IH [OF this] l True i show ?thesis
      by (simp add: deletes_at_def listed_at_def entry_id_def)
  next
    case False
    with Cons.prems l have
      "delete_where e ''files'' ''location'' (JStr loc) xs w = (Inr (), w')"
      by (simp add: run)
    from Cons.IH [OF this] l False show ?thesis
      by (simp add: deletes_at_def listed_at_def)
  qed
qed

lemma delete_file_done:
  assumes "delete_file e loc w = (Inr (), w')"
  shows "w' = w\<lparr>calls := calls w @ Call GET Files_challenge No_payload #
                                     deletes_at loc (listed e (calls w))\<rparr>"
proof -
  let ?r = "respond e (calls w) (Call GET Files_challenge No_payload)"
  from assms obtain d where d: "json_data ?r = Inr d"
    by (cases "json_data ?r") (simp_all add: delete_file_def run)
  from assms d obtain xs where xs: "iterate d = Inr xs"
    by (cases "iterate d") (simp_all add: delete_file_def run)
  from assms d xs have
    "delete_where e ''files'' ''location'' (JStr loc) xs
       (w\<lparr>calls := calls w @ [Call GET Files_challenge No_payload]\<rparr>) = (Inr (), w')"
    by (simp add: delete_file_def run)
  from delete_where_done [OF this] d xs show ?thesis by (simp add: listed_def)
qed

lemma create_file_done:
  assumes "create_file e path w = (Inr (), w')"
  shows "w' = w\<lparr>calls := calls w @ create_call (challenge_id w) (disk w) path\<rparr>"
  using assms
  by (cases "map_of (disk w) path")
     (auto simp: create_file_def read_file_def create_call_def run split: if_splits)

lemma sync_local_file_done:
  assumes "sync_local_file e remote_files sha1sums lf w = (Inr (), w')"
  shows "w' = w\<lparr>calls := calls w @
           file_round e remote_files sha1sums (disk w) (challenge_id w) (calls w) lf\<rparr>"
proof (cases "map_of remote_files (fst lf)")
  case None
  with assms create_file_done [of e "snd lf" w w'] show ?thesis
    by (simp add: sync_local_file_def file_round_def)
next
  case (Some rf)
  from assms Some obtain sha where sha: "sha1sum_at sha1sums (location rf) = Inr sha"
    by (cases "sha1sum_at sha1sums (location rf)") (simp_all add: sync_local_file_def run)
  show ?thesis
  proof (cases "unchanged e sha1sums (disk w) rf (snd lf)")
    case True
    with assms Some sha show ?thesis
      by (auto simp: sync_local_file_def file_round_def unchanged_def read_file_def run
          split: option.splits)
  next
    case False
    with assms Some sha have
      "bnd (delete_file e (location rf)) (\<lambda>_. create_file e (snd lf)) w = (Inr (), w')"
      by (auto simp: sync_local_file_def unchanged_def read_file_def run
          split: option.splits if_splits)
    then obtain w1 where d: "delete_file e (location rf) w = (Inr (), w1)"
      and c: "create_file e (snd lf) w1 = (Inr (), w')"
      by (auto simp: bnd_def split: prod.splits sum.splits)
    from delete_file_done [OF d] create_file_done [OF c] Some False show ?thesis
      by (simp add: file_round_def)
  qed
qed

lemma sync_local_files_done:
  assumes "sync_local_files e remote_files sha1sums lfs w = (Inr (), w')"
  shows "w' = w\<lparr>calls := calls w @ concat
           (file_rounds e remote_files sha1sums (disk w) (challenge_id w) (calls w) lfs)\<rparr>"
  using assms
proof (induction lfs arbitrary: w)
  case Nil
  then show ?case by (simp add: run)
next
  case (Cons lf lfs)
  from Cons.prems obtain w1 where
    a: "sync_local_file e remote_files sha1sums lf w = (Inr (), w1)" and
    b: "sync_local_files e remote_files sha1sums lfs w1 = (Inr (), w')"
    by (auto simp: bnd_def split: prod.splits sum.splits)
  from sync_local_file_done [OF a] Cons.IH [OF b] show ?case by simp
qed

text \<open>
  The other steps of \<open>sync\<close> send calls of the other sub-resources only, whether they
  return or raise.
\<close>

lemma frame_mono:
  assumes "frame P k j m" "\<And>c. P c \<Longrightarrow> Q c"
  shows "frame Q k j m"
  unfolding frame_def evolves_def
proof (intro allI)
  fix w
  from assms(1) obtain cs where cs: "calls (snd (m w)) = calls w @ cs" "list_all P cs"
    and rest: "disk (snd (m w)) = disk w"
      "if k then doc (snd (m w)) = doc w else True"
      "if j then challenge_id (snd (m w)) = challenge_id w else True"
    unfolding frame_def evolves_def by blast
  from cs(2) assms(2) have "list_all Q cs" by (auto simp: list_all_iff)
  with cs(1) rest show "(\<exists>cs. calls (snd (m w)) = calls w @ cs \<and> list_all Q cs) \<and>
      disk (snd (m w)) = disk w \<and> (if k then doc (snd (m w)) = doc w else True) \<and>
      (if j then challenge_id (snd (m w)) = challenge_id w else True)" by blast
qed

lemma read_is_sub_resource: "is_read c \<Longrightarrow> sub_resource_call c"
  by (cases c) auto

lemma frame_delete_where:
  assumes "\<And>i. P (Call DELETE (Item kind i) No_payload)"
  shows "frame P k j (delete_where e kind key v xs)"
  by (induction xs) (intro frame_intros assms | simp)+

lemma frame_delete_existing:
  assumes "kind \<noteq> ''files''"
  shows "frame sub_resource_call k j (delete_existing e kind)"
  unfolding delete_existing_def
  by (intro frame_intros frame_delete_where | simp add: assms)+

lemma frame_delete_topics: "frame sub_resource_call k j (delete_topics e ts)"
  by (induction ts) (intro frame_intros | simp)+

lemma frame_delete_existing_topics: "frame sub_resource_call k j (delete_existing_topics e)"
  unfolding delete_existing_topics_def
  by (intro frame_intros frame_delete_topics | simp)+

lemma frame_post_each:
  assumes "kind \<noteq> ''files''"
  shows "frame sub_resource_call k j (post_each e kind mk xs)"
  by (induction xs) (intro frame_intros | simp add: assms)+

lemma frame_create_entries:
  assumes "kind \<noteq> ''files''"
  shows "frame sub_resource_call k j (create_entries e kind mk)"
  unfolding create_entries_def
  by (intro frame_intros frame_post_each assms)

lemma frame_resolve_required: "frame P k j (resolve_required rcs xs acc)"
  by (induction xs arbitrary: acc)
     ((intro frame_intros conjI allI impI | simp split: option.split)+)

lemma frame_listing_sub: "frame sub_resource_call k j (load_installed_challenges e)"
  by (rule frame_mono [OF frame_load_installed_challenges read_is_sub_resource])

lemma frame_set_required_challenges:
  "frame sub_resource_call k j (set_required_challenges e)"
  unfolding set_required_challenges_def
  by (intro frame_intros frame_listing_sub frame_resolve_required
      | simp add: requirements_payload_def)+

lemma frame_set_next: "frame sub_resource_call k j (set_next e nxt)"
  unfolding set_next_def
  by (intro frame_intros frame_listing_sub | simp add: next_payload_def)+

lemma bnd_InrD:
  "bnd m f w = (Inr y, w') \<Longrightarrow> \<exists>x w1. m w = (Inr x, w1) \<and> f x w1 = (Inr y, w')"
  by (auto simp: bnd_def split: prod.splits sum.splits)

lemma frameD:
  assumes "frame P True True m" "m w = (r, w')"
  shows "\<exists>cs. calls w' = calls w @ cs \<and> list_all P cs \<and> disk w' = disk w \<and>
              doc w' = doc w \<and> challenge_id w' = challenge_id w"
  using assms by (auto simp: frame_def evolves_def dest!: spec [of _ w])

lemma frameD_id:
  assumes "frame P False True m" "m w = (r, w')"
  shows "\<exists>cs. calls w' = calls w @ cs \<and> list_all P cs \<and> disk w' = disk w \<and>
              challenge_id w' = challenge_id w"
  using assms by (auto simp: frame_def evolves_def dest!: spec [of _ w])

lemma sub_resource_no_file_call:
  "sub_resource_call c \<Longrightarrow> \<not> is_file_create c \<and> \<not> is_file_delete c"
  by (induction c rule: sub_resource_call.induct) (auto split: endpoint.splits)

lemma get_files_sha1sums_done:
  assumes "get_files_sha1sums e w = (Inr sums, w')"
  shows "w' = w\<lparr>calls := calls w @ [Call GET Files_challenge No_payload]\<rparr> \<and>
         sums = sha1sums_of e (calls w)"
proof -
  let ?r = "respond e (calls w) (Call GET Files_challenge No_payload)"
  from assms have g: "ok ?r" by (simp add: get_files_sha1sums_def run split: if_splits)
  from assms g obtain d where d: "json_data ?r = Inr d"
    by (cases "json_data ?r") (simp_all add: get_files_sha1sums_def run)
  from assms g d obtain xs where xs: "iterate d = Inr xs"
    by (cases "iterate d") (simp_all add: get_files_sha1sums_def run)
  from assms g d xs show ?thesis
    by (auto simp: get_files_sha1sums_def sha1sums_of_def listed_def run)
qed

lemma frame_delete_file:
  assumes "\<And>c. is_read c \<Longrightarrow> P c" "\<And>i. P (Call DELETE (Item ''files'' i) No_payload)"
  shows "frame P k j (delete_file e loc)"
  unfolding delete_file_def
  by (intro frame_intros frame_delete_where assms | simp)+

lemma frame_delete_unreferenced:
  "frame (\<lambda>c. is_read c \<or> is_file_delete c) k j (delete_unreferenced e lfs rfs)"
  by (induction rfs) (intro frame_intros frame_delete_file impI conjI | simp)+

lemma sync_files_done:
  assumes fin: "sync_files e rc w = (Inr (), w')" and some: "local_files_of (doc w) \<noteq> []"
  shows "\<exists>unref. calls w' =
           calls w @ unref @ [Call GET Files_challenge No_payload] @
           concat (file_rounds e (remote_files_of rc) (sha1sums_of e (calls w @ unref)) (disk w)
             (challenge_id w) (calls w @ unref @ [Call GET Files_challenge No_payload])
             (local_files_of (doc w))) \<and>
         list_all (\<lambda>c. \<not> is_file_create c) unref \<and>
         challenge_id w' = challenge_id w \<and> disk w' = disk w"
proof -
  let ?files = "py_or (dget (doc w) ''files'' JNull) (JList [])"
  let ?w1 = "w\<lparr>doc := dict_set (doc w) ''files'' ?files\<rparr>"
  from fin obtain rf where rf: "py_get rc ''files'' JNull = Inr rf"
    by (cases "py_get rc ''files'' JNull") (simp_all add: sync_files_def run)
  from fin rf obtain fs where fs: "iterate ?files = Inr fs"
    by (cases "iterate ?files") (simp_all add: sync_files_def run)
  from fin rf fs obtain lfs where lfs: "local_files_into last_part [] fs = Inr lfs"
    by (cases "local_files_into last_part [] fs") (simp_all add: sync_files_def run)
  from fin rf fs lfs obtain rfs where rfs: "normalize_remote_files (py_or rf (JList [])) = Inr rfs"
    by (cases "normalize_remote_files (py_or rf (JList []))") (simp_all add: sync_files_def run)
  have l: "local_files_of (doc w) = lfs" using fs lfs by (simp add: local_files_of_def)
  have r: "remote_files_of rc = rfs" using rf rfs by (simp add: remote_files_of_def)
  from some l have ne: "lfs \<noteq> []" by simp
  from fin rf fs lfs rfs ne obtain w2 sums w3 where
    a: "delete_unreferenced e lfs rfs ?w1 = (Inr (), w2)" and
    b: "get_files_sha1sums e w2 = (Inr sums, w3)" and
    c: "sync_local_files e rfs sums lfs w3 = (Inr (), w')"
    by (auto simp: sync_files_def bnd_def gets_def set_doc_def lift_def
             split: prod.splits sum.splits)
  from frameD [OF frame_delete_unreferenced a] obtain unref where
    u: "calls w2 = calls w @ unref" "list_all (\<lambda>c. is_read c \<or> is_file_delete c) unref"
       "disk w2 = disk w" "challenge_id w2 = challenge_id w"
    by auto
  have nc: "list_all (\<lambda>c. \<not> is_file_create c) unref"
  proof -
    have "\<not> is_file_create c" if "is_read c \<or> is_file_delete c" for c
      using that by (cases c) auto
    with u(2) show ?thesis by (auto simp: list_all_iff)
  qed
  from get_files_sha1sums_done [OF b] have
    w3: "w3 = w2\<lparr>calls := calls w2 @ [Call GET Files_challenge No_payload]\<rparr>"
    and s: "sums = sha1sums_of e (calls w2)" by simp_all
  from sync_local_files_done [OF c] w3 s u l r nc show ?thesis
    by (intro exI [of _ unref]) simp
qed

lemma load_installed_challenge_done:
  assumes "load_installed_challenge e cid w = (Inr rc, w')"
  shows "w' = w\<lparr>calls := calls w @ [Call GET (Challenge_admin cid) No_payload]\<rparr> \<and>
         rc = json_get_data (respond e (calls w) (Call GET (Challenge_admin cid) No_payload))"
  using assms by (auto simp: load_installed_challenge_def run split: if_splits)

lemma load_installed_challenges_calls:
  "calls (snd (load_installed_challenges e w)) = calls w @ [Call GET Challenges_admin No_payload]"
  by (simp add: load_installed_challenges_def run)

lemma load_challenge_id_done:
  assumes "load_challenge_id e w = (r, w')"
  shows "calls w' = calls w @ [Call GET Challenges_admin No_payload] \<and>
         doc w' = doc w \<and> disk w' = disk w"
  using assms
  by (auto simp: load_challenge_id_def load_installed_challenges_def run
           split: if_splits sum.splits option.splits)

lemma frame_nothing:
  assumes "frame (\<lambda>c. False) True True m" "m w = (r, w')"
  shows "calls w' = calls w \<and> disk w' = disk w \<and> doc w' = doc w \<and>
         challenge_id w' = challenge_id w"
  using frameD [OF assms] by (auto simp: list_all_iff)

lemma sync_begin_done:
  assumes "sync_begin e ignore w = (Inr (cid, rc, p), w1)"
  shows "calls w1 = calls w @ [Call GET Challenges_admin No_payload,
                               Call GET (Challenge_admin cid) No_payload] \<and>
         challenge_id w1 = cid \<and> doc w1 = doc w \<and> disk w1 = disk w \<and>
         rc = fetched_challenge e w cid"
proof -
  from assms obtain u wa where
    a: "only_if (''name'' \<in> set ignore)
          (secho [Txt (''Attribute '' @ [CHR 0x27] @ ''name'' @ [CHR 0x27] @
                       '' cannot be ignored when syncing a challenge'')]) w = (Inr u, wa)" and
    b: "bnd (only_if (truthy (dget (doc wa) ''files'' (JBool False)) \<and> ''files'' \<notin> set ignore)
                validate_files) (\<lambda>_.
         bnd (lift (get_initial_challenge_payload ignore (doc wa))) (\<lambda>challenge_payload.
         bnd (load_challenge_id e) (\<lambda>_.
         bnd (gets challenge_id) (\<lambda>cid.
         bnd (load_installed_challenge e cid) (\<lambda>remote_challenge.
         bnd (lift (reset_to_remote ignore remote_challenge
                [''value'', ''category'', ''type'', ''description'', ''attribution'']
                challenge_payload)) (\<lambda>challenge_payload.
           ret (cid, remote_challenge, challenge_payload))))))) wa = (Inr (cid, rc, p), w1)"
    unfolding sync_begin_def
    by (auto dest!: bnd_InrD simp: gets_def raise_def split: if_splits)
  have fa: "frame (\<lambda>c. False) True True
              (only_if (''name'' \<in> set ignore)
                (secho [Txt (''Attribute '' @ [CHR 0x27] @ ''name'' @ [CHR 0x27] @
                       '' cannot be ignored when syncing a challenge'')]))"
    by (intro frame_intros)
  note A = frame_nothing [OF fa a]
  from b obtain v wb p0 wc where
    c: "only_if (truthy (dget (doc wa) ''files'' (JBool False)) \<and> ''files'' \<notin> set ignore)
          validate_files wa = (Inr v, wb)" and
    d: "load_challenge_id e wb = (Inr (), wc)" and
    f: "load_installed_challenge e (challenge_id wc) wc = (Inr rc, w1)" and
    g: "cid = challenge_id wc"
    by (auto dest!: bnd_InrD simp: gets_def lift_def ret_def)
  have fc: "frame (\<lambda>c. False) True True
              (only_if (truthy (dget (doc wa) ''files'' (JBool False)) \<and> ''files'' \<notin> set ignore)
                 validate_files)"
    by (intro frame_intros)
  note C = frame_nothing [OF fc c]
  note D = load_challenge_id_done [OF d]
  note F = load_installed_challenge_done [OF f]
  from A C D F g show ?thesis by (simp add: fetched_challenge_def)
qed

lemma sub_resource_no_mutation: "sub_resource_call c \<Longrightarrow> no_file_mutation c"
  by (simp add: no_file_mutation_def sub_resource_no_file_call)

lemma frame_sync_entries:
  assumes "kind \<noteq> ''files''"
  shows "frame sub_resource_call k j
           (only_if c (bnd (delete_existing e kind) (\<lambda>_.
              bnd (gets doc) (\<lambda>d. only_if (t d) (create_entries e kind mk)))))"
  by (intro frame_intros frame_delete_existing frame_create_entries assms)

lemma frame_sync_topics:
  "frame sub_resource_call k j
     (only_if c (bnd (delete_existing_topics e) (\<lambda>_.
        bnd (gets doc) (\<lambda>d. only_if (t d) (create_entries e ''topics'' mk)))))"
  by (intro frame_intros frame_delete_existing_topics frame_create_entries) simp

lemma frame_make_visible: "frame no_file_mutation k j (only_if b (make_visible e))"
  unfolding make_visible_def
  by (intro frame_intros) (simp add: no_file_mutation_def)

lemma sync_update_done:
  assumes fin: "sync_update e ignore rc w = (Inr (), w')"
    and files: "''files'' \<notin> set ignore" and some: "local_files_of (doc w) \<noteq> []"
  shows "\<exists>pre post.
           calls w' =
             calls w @ pre @ [Call GET Files_challenge No_payload] @
             concat (file_rounds e (remote_files_of rc) (sha1sums_of e (calls w @ pre)) (disk w)
               (challenge_id w) (calls w @ pre @ [Call GET Files_challenge No_payload])
               (local_files_of (doc w))) @ post \<and>
           list_all (\<lambda>c. \<not> is_file_create c) pre \<and> list_all no_file_mutation post \<and>
           challenge_id w' = challenge_id w"
proof -
  from fin obtain a b c d f g where
    s1: "only_if (''flags'' \<notin> set ignore)
            (bnd (delete_existing e ''flags'') (\<lambda>_.
             bnd (gets doc) (\<lambda>d.
               only_if (truthy (dget d ''flags'' JNull)) (create_entries e ''flags'' flag_payload))))
           w = (Inr (), a)" and
    s2: "only_if (''topics'' \<notin> set ignore)
            (bnd (delete_existing_topics e) (\<lambda>_.
             bnd (gets doc) (\<lambda>d.
               only_if (truthy (dget d ''topics'' JNull))
                 (create_entries e ''topics'' topic_payload))))
           a = (Inr (), b)" and
    s3: "only_if (''tags'' \<notin> set ignore)
            (bnd (delete_existing e ''tags'') (\<lambda>_.
             bnd (gets doc) (\<lambda>d.
               only_if (truthy (dget d ''tags'' JNull)) (create_entries e ''tags'' tag_payload))))
           b = (Inr (), c)" and
    s4: "only_if (''files'' \<notin> set ignore) (sync_files e rc) c = (Inr (), d)" and
    s5: "only_if (''hints'' \<notin> set ignore)
            (bnd (delete_existing e ''hints'') (\<lambda>_.
             bnd (gets doc) (\<lambda>d.
               only_if (truthy (dget d ''hints'' JNull)) (create_entries e ''hints'' hint_payload))))
           d = (Inr (), f)" and
    s6: "only_if (truthy (dget (doc f) ''requirements'' JNull) \<and> ''requirements'' \<notin> set ignore)
            (set_required_challenges e) f = (Inr (), g)" and
    s7: "only_if (''next'' \<notin> set ignore) (set_next e (dget (doc f) ''next'' JNull)) g =
           (Inr (), w')"
    unfolding sync_update_def delete_existing_flags_def delete_existing_tags_def
      delete_existing_hints_def create_flags_def create_topics_def create_tags_def
      create_hints_def
    by (auto dest!: bnd_InrD simp: gets_def)
  from frameD [OF frame_sync_entries s1] obtain cs1 where
    1: "calls a = calls w @ cs1" "list_all sub_resource_call cs1" "disk a = disk w"
       "doc a = doc w" "challenge_id a = challenge_id w"
    by auto
  from frameD [OF frame_sync_topics s2] obtain cs2 where
    2: "calls b = calls a @ cs2" "list_all sub_resource_call cs2" "disk b = disk a"
       "doc b = doc a" "challenge_id b = challenge_id a"
    by auto
  from frameD [OF frame_sync_entries s3] obtain cs3 where
    3: "calls c = calls b @ cs3" "list_all sub_resource_call cs3" "disk c = disk b"
       "doc c = doc b" "challenge_id c = challenge_id b"
    by auto
  from s4 files have s4': "sync_files e rc c = (Inr (), d)" by (simp add: only_if_def)
  from some 1 2 3 have some': "local_files_of (doc c) \<noteq> []" by simp
  from sync_files_done [OF s4' some'] obtain unref where
    4: "calls d =
           calls c @ unref @ [Call GET Files_challenge No_payload] @
           concat (file_rounds e (remote_files_of rc) (sha1sums_of e (calls c @ unref)) (disk c)
             (challenge_id c) (calls c @ unref @ [Call GET Files_challenge No_payload])
             (local_files_of (doc c)))"
       "list_all (\<lambda>c. \<not> is_file_create c) unref" "challenge_id d = challenge_id c"
    by auto
  from frameD_id [OF frame_sync_entries s5] obtain cs5 where
    5: "calls f = calls d @ cs5" "list_all sub_resource_call cs5"
       "challenge_id f = challenge_id d"
    by auto
  have f6: "frame sub_resource_call False True
              (only_if (truthy (dget (doc f) ''requirements'' JNull) \<and>
                        ''requirements'' \<notin> set ignore) (set_required_challenges e))"
    by (intro frame_intros frame_set_required_challenges)
  from frameD_id [OF f6 s6] obtain cs6 where
    6: "calls g = calls f @ cs6" "list_all sub_resource_call cs6"
       "challenge_id g = challenge_id f"
    by auto
  have f7: "frame sub_resource_call False True
              (only_if (''next'' \<notin> set ignore) (set_next e (dget (doc f) ''next'' JNull)))"
    by (intro frame_intros frame_set_next)
  from frameD_id [OF f7 s7] obtain cs7 where
    7: "calls w' = calls g @ cs7" "list_all sub_resource_call cs7"
       "challenge_id w' = challenge_id g"
    by auto
  let ?pre = "cs1 @ cs2 @ cs3 @ unref" and ?post = "cs5 @ cs6 @ cs7"
  have pre: "list_all (\<lambda>c. \<not> is_file_create c) ?pre"
    using 1(2) 2(2) 3(2) 4(2) by (auto simp: list_all_iff dest: sub_resource_no_file_call)
  have post: "list_all no_file_mutation ?post"
    using 5(2) 6(2) 7(2) by (auto simp: list_all_iff dest: sub_resource_no_mutation)
  have "calls w' =
          calls w @ ?pre @ [Call GET Files_challenge No_payload] @
          concat (file_rounds e (remote_files_of rc) (sha1sums_of e (calls w @ ?pre)) (disk w)
            (challenge_id w) (calls w @ ?pre @ [Call GET Files_challenge No_payload])
            (local_files_of (doc w))) @ ?post"
    using 1 2 3 4 5 6 7 by simp
  moreover have "challenge_id w' = challenge_id w" using 1 2 3 4 5 6 7 by simp
  ultimately show ?thesis using pre post by blast
qed




end
